theory Spec2Isabelle
  imports Complex_Main "HOL-Library.Sublist"
begin

section \<open>JavaScript values used by the action\<close>

text \<open>
  The action is TypeScript running on Node. A string is modelled as a \<^typ>\<open>string\<close>
  (a list of bytes, the UTF-8 text); the character classes of regular expressions and the
  white space and digits of numbers are ASCII. Pictographs in messages are written as
  their UTF-8 bytes. Violation types are the exception: their names depend on the case
  conversion of JavaScript, so they are lists of UTF-16 code units.

  A number that comes out of \<open>parseInt\<close> is either \<open>NaN\<close> or an integer; it is
  modelled as \<open>jsnum\<close>, the integer being exact (a double agrees with it up to
  \<open>2^53\<close>, and rounding beyond that is monotone, so no comparison against the
  bounds of this program changes). Every comparison with \<open>NaN\<close> is false.
\<close>

datatype jsnum = NaN | Num int

fun js_lt :: "jsnum \<Rightarrow> jsnum \<Rightarrow> bool" where
  "js_lt (Num a) (Num b) = (a < b)"
| "js_lt _ _ = False"

definition js_gt :: "jsnum \<Rightarrow> jsnum \<Rightarrow> bool" where
  "js_gt a b = js_lt b a"

text \<open>
  A thrown value: an \<open>Error\<close> object with its message, or any other value (the
  handlers of the action print \<open>Unknown error\<close> for those).
\<close>

datatype exn = Error string | Thrown

fun error_message :: "exn \<Rightarrow> string" where
  "error_message (Error m) = m"
| "error_message Thrown = ''Unknown error''"

text \<open>\<open>Number.prototype.toString\<close> on an integer, and inside a template string.\<close>

fun string_of_nat :: "nat \<Rightarrow> string" where
  "string_of_nat n =
     (if n < 10 then [''0123456789'' ! n]
      else string_of_nat (n div 10) @ [''0123456789'' ! (n mod 10)])"

declare string_of_nat.simps [simp del]

definition toString :: "int \<Rightarrow> string" where
  "toString i = (if i < 0 then CHR ''-'' # string_of_nat (nat (- i)) else string_of_nat (nat i))"

fun jsnum_toString :: "jsnum \<Rightarrow> string" where
  "jsnum_toString NaN = ''NaN''"
| "jsnum_toString (Num i) = toString i"

text \<open>
  \<open>String.prototype.startsWith\<close>, \<open>endsWith\<close> and \<open>includes\<close>; \<open>replace\<close> with a
  string pattern (the first occurrence is replaced) and with a pattern anchored by \<open>^\<close>;
  \<open>split\<close> on a separator character.
\<close>

definition startsWith :: "string \<Rightarrow> string \<Rightarrow> bool" where
  "startsWith s p = prefix p s"

definition endsWith :: "string \<Rightarrow> string \<Rightarrow> bool" where
  "endsWith s p = suffix p s"

fun str_includes :: "string \<Rightarrow> string \<Rightarrow> bool" where
  "str_includes [] p = (p = [])"
| "str_includes (c # cs) p = (prefix p (c # cs) \<or> str_includes cs p)"

fun replace_first :: "string \<Rightarrow> string \<Rightarrow> string \<Rightarrow> string" where
  "replace_first pat rep [] = (if pat = [] then rep else [])"
| "replace_first pat rep (c # cs) =
     (if prefix pat (c # cs) then rep @ drop (length pat) (c # cs)
      else c # replace_first pat rep cs)"

definition replace_prefix :: "string \<Rightarrow> string \<Rightarrow> string \<Rightarrow> string" where
  "replace_prefix pat rep s = (if prefix pat s then rep @ drop (length pat) s else s)"

definition replace_suffix :: "string \<Rightarrow> string \<Rightarrow> string \<Rightarrow> string" where
  "replace_suffix pat rep s =
     (if suffix pat s then take (length s - length pat) s @ rep else s)"

fun str_split :: "char \<Rightarrow> string \<Rightarrow> string list" where
  "str_split sep [] = [[]]"
| "str_split sep (c # cs) =
     (if c = sep then [] # str_split sep cs
      else (case str_split sep cs of [] \<Rightarrow> [[c]] | x # xs \<Rightarrow> (c # x) # xs))"

text \<open>
  \<open>parseInt(s)\<close> with no radix: leading (ASCII) white space is skipped, a sign is read, a
  \<open>0x\<close> or \<open>0X\<close> prefix selects radix 16, and the longest run of digits of the
  radix is the value; with no digit the result is \<open>NaN\<close>. What follows the digits is
  ignored.
\<close>

definition isWhiteSpace :: "char \<Rightarrow> bool" where
  "isWhiteSpace c \<longleftrightarrow> c \<in> set [CHR 0x09, CHR 0x0A, CHR 0x0B, CHR 0x0C, CHR 0x0D, CHR '' '']"

definition digitValue :: "char \<Rightarrow> nat option" where
  "digitValue c =
     map_of [(CHR ''0'', 0), (CHR ''1'', 1), (CHR ''2'', 2), (CHR ''3'', 3), (CHR ''4'', 4),
             (CHR ''5'', 5), (CHR ''6'', 6), (CHR ''7'', 7), (CHR ''8'', 8), (CHR ''9'', 9),
             (CHR ''a'', 10), (CHR ''b'', 11), (CHR ''c'', 12), (CHR ''d'', 13),
             (CHR ''e'', 14), (CHR ''f'', 15),
             (CHR ''A'', 10), (CHR ''B'', 11), (CHR ''C'', 12), (CHR ''D'', 13),
             (CHR ''E'', 14), (CHR ''F'', 15)] c"

definition isDigit :: "nat \<Rightarrow> char \<Rightarrow> bool" where
  "isDigit radix c = (case digitValue c of None \<Rightarrow> False | Some d \<Rightarrow> d < radix)"

fun digitsValue :: "nat \<Rightarrow> nat \<Rightarrow> string \<Rightarrow> nat" where
  "digitsValue radix acc [] = acc"
| "digitsValue radix acc (c # cs) =
     digitsValue radix (acc * radix + (case digitValue c of None \<Rightarrow> 0 | Some d \<Rightarrow> d)) cs"

definition parseInt :: "string \<Rightarrow> jsnum" where
  "parseInt str =
     (let s = dropWhile isWhiteSpace str;
          negative = (s \<noteq> [] \<and> hd s = CHR ''-'');
          s1 = (if s \<noteq> [] \<and> (hd s = CHR ''+'' \<or> hd s = CHR ''-'') then tl s else s);
          hex = (prefix ''0x'' s1 \<or> prefix ''0X'' s1);
          radix = (if hex then 16 else 10);
          s2 = (if hex then drop 2 s1 else s1);
          z = takeWhile (isDigit radix) s2
      in if z = [] then NaN
         else Num ((if negative then - 1 else 1) * int (digitsValue radix 0 z)))"

text \<open>\<open>a || b\<close> on strings: the empty string is falsy.\<close>

definition or_else :: "string \<Rightarrow> string \<Rightarrow> string" where
  "or_else a b = (if a = [] then b else a)"

section \<open>Inputs and outputs of the action\<close>

text \<open>\<open>ActionInputs\<close> of \<open>lib/inputs.ts\<close>.\<close>

record ActionInputs =
  apiKey :: string
  serverUrl :: string
  organizationSlug :: string
  repositoryUrl :: string
  branch :: string
  scanTypes :: "string list"
  waitForCompletion :: bool
  timeout :: jsnum
  pollInterval :: jsnum
  outputFormat :: string
  outputFile :: string
  uploadSarif :: bool
  failOnCritical :: bool
  failOnHigh :: bool
  maxViolations :: jsnum
  skipImport :: bool
  verbose :: bool

text \<open>
  \<open>Omit<ActionOutputs, 'repositoryId' | 'scanId'>\<close>, what \<open>processResults\<close> returns, and
  \<open>ActionOutputs\<close> of \<open>lib/outputs.ts\<close>. The counts are the integers of the remote
  summary; score and duration are passed through unread.
\<close>

record Results =
  resultsFile :: "string option"
  violationCount :: int
  criticalCount :: int
  highCount :: int
  mediumCount :: int
  lowCount :: int
  securityScore :: "int option"
  scanDuration :: "int option"
  scanUrl :: "string option"

record ActionOutputs =
  out_scanId :: string
  out_repositoryId :: string
  out_resultsFile :: "string option"
  out_violationCount :: int
  out_criticalCount :: int
  out_highCount :: int
  out_mediumCount :: int
  out_lowCount :: int
  out_securityScore :: "int option"
  out_scanDuration :: "int option"
  out_scanUrl :: "string option"

section \<open>Failure conditions (\<open>CodeThreatAction.checkFailureConditions\<close>)\<close>

text \<open>
  The three checks in the order of the source; each \<open>throw\<close> is an \<open>Inl\<close>. The
  informational lines printed after the checks do not change the outcome.
\<close>

definition checkFailureConditions :: "ActionInputs \<Rightarrow> Results \<Rightarrow> exn + unit" where
  "checkFailureConditions inputs results =
     (if failOnCritical inputs \<and> criticalCount results > 0 then
        Inl (Error (''Build failed: '' @ toString (criticalCount results)
                    @ '' critical vulnerabilities found''))
      else if failOnHigh inputs \<and> highCount results > 0 then
        Inl (Error (''Build failed: '' @ toString (highCount results)
                    @ '' high severity vulnerabilities found''))
      else if js_gt (maxViolations inputs) (Num 0)
              \<and> js_gt (Num (violationCount results)) (maxViolations inputs) then
        Inl (Error (''Build failed: '' @ toString (violationCount results)
                    @ '' violations exceed maximum allowed (''
                    @ jsnum_toString (maxViolations inputs) @ '')''))
      else Inr ())"

section \<open>Repository URLs (\<open>CodeThreatAction.normalizeGitHubUrl\<close>, \<open>extractRepoName\<close>)\<close>

text \<open>
  The two \<open>replace\<close> calls have patterns anchored at the start of the string
  (\<open>/^git:\/\//\<close> and \<open>/^git@github\.com:/\<close>); the debug line printed before the
  return does not change the result.
\<close>

definition normalizeGitHubUrl :: "string \<Rightarrow> string" where
  "normalizeGitHubUrl url =
     (if url = [] then url
      else
        let url1 = replace_prefix ''git://'' ''https://'' url;
            url2 = replace_prefix ''git@github.com:'' ''https://github.com/'' url1;
            url3 = (if \<not> startsWith url2 ''https://'' \<and> \<not> startsWith url2 ''http://''
                    then (if startsWith url2 ''github.com'' then ''https://'' @ url2 else url2)
                    else url2);
            url4 = (if \<not> endsWith url3 ''.git'' then url3 @ ''.git'' else url3)
        in url4)"

text \<open>
  \<open>/^(https?|git|ssh):\/\//\<close>: the alternatives in the order the matcher tries them.
\<close>

definition remove_protocol :: "string \<Rightarrow> string" where
  "remove_protocol s =
     (if prefix ''https://'' s then drop 8 s
      else if prefix ''http://'' s then drop 7 s
      else if prefix ''git://'' s then drop 6 s
      else if prefix ''ssh://'' s then drop 6 s
      else s)"

text \<open>The class \<open>[\w-]\<close>: ASCII letters, digits, underscore and hyphen.\<close>

definition word_or_hyphen :: "char \<Rightarrow> bool" where
  "word_or_hyphen c \<longleftrightarrow>
     c \<in> set ''abcdefghijklmnopqrstuvwxyzABCDEFGHIJKLMNOPQRSTUVWXYZ0123456789_-''"

text \<open>
  \<open>/github\.com[:/][\w-]+\/([\w-]+)/\<close> tried at the start of \<open>s\<close>, giving the
  captured group. A run \<open>[\w-]+\<close> followed by \<open>/\<close> can only be the longest run,
  since \<open>/\<close> is not in the class, and the captured run is the longest one (the
  quantifier is greedy and nothing follows it).
\<close>

definition github_match_here :: "string \<Rightarrow> string option" where
  "github_match_here s =
     (if \<not> prefix ''github.com'' s then None
      else
        let r = drop 10 s in
        if r = [] \<or> (hd r \<noteq> CHR '':'' \<and> hd r \<noteq> CHR ''/'') then None
        else
          let r1 = tl r;
              r2 = dropWhile word_or_hyphen r1 in
          if takeWhile word_or_hyphen r1 = [] \<or> r2 = [] \<or> hd r2 \<noteq> CHR ''/'' then None
          else
            let name = takeWhile word_or_hyphen (tl r2) in
            if name = [] then None else Some name)"

text \<open>\<open>String.prototype.match\<close> without the \<open>g\<close> flag: the leftmost match.\<close>

fun github_match :: "string \<Rightarrow> string option" where
  "github_match [] = github_match_here []"
| "github_match (c # cs) =
     (case github_match_here (c # cs) of
        Some name \<Rightarrow> Some name
      | None \<Rightarrow> github_match cs)"

definition clean_url :: "string \<Rightarrow> string" where
  "clean_url url =
     replace_prefix ''git@'' [] (remove_protocol (replace_suffix ''.git'' [] url))"

definition extractRepoName :: "string \<Rightarrow> string" where
  "extractRepoName url =
     (if url = [] then ''unknown-repository''
      else
        let cleanUrl = clean_url url in
        case github_match cleanUrl of
          Some name \<Rightarrow> name
        | None \<Rightarrow>
            let segments = filter (\<lambda>s. length s > 0) (str_split CHR ''/'' cleanUrl) in
            if length segments > 0 then segments ! (length segments - 1)
            else ''unknown-repository'')"

section \<open>Violation types (\<open>CodeThreatAction.getViolationTypeFriendlyName\<close>)\<close>

text \<open>
  A JavaScript string as the list of its UTF-16 code units; \<open>substring(0, 1)\<close> and
  \<open>substring(1)\<close> cut between code units. \<open>utf16\<close> gives the code units of a text of
  ASCII characters.
\<close>

type_synonym jsstring = "nat list"

definition utf16 :: "string \<Rightarrow> jsstring" where
  "utf16 s = map of_char s"

text \<open>The pictographs that start the names of the buckets, as UTF-16.\<close>

definition package_sign :: jsstring where
  "package_sign = [0xD83D, 0xDCE6]"

definition lock_sign :: jsstring where
  "lock_sign = [0xD83D, 0xDD12]"

definition key_sign :: jsstring where
  "key_sign = [0xD83D, 0xDD11]"

definition cloud_sign :: jsstring where
  "cloud_sign = [0x2601, 0xFE0F]"

definition clipboard_sign :: jsstring where
  "clipboard_sign = [0xD83D, 0xDCCB]"

text \<open>
  \<open>String.prototype.toUpperCase\<close> and \<open>toLowerCase\<close> are the case conversions of
  Unicode. They are not code of the action, and the function takes them as parameters;
  the properties below say what they need of them.
\<close>

definition getViolationTypeFriendlyName ::
  "(jsstring \<Rightarrow> jsstring) \<Rightarrow> (jsstring \<Rightarrow> jsstring) \<Rightarrow> jsstring \<Rightarrow> jsstring" where
  "getViolationTypeFriendlyName toUpperCase toLowerCase type =
     (let u = toUpperCase type in
      if u = utf16 ''SCA'' then package_sign @ utf16 '' Dependencies''
      else if u = utf16 ''SAST'' \<or> u = utf16 ''AGENTIC_SAST'' then
        lock_sign @ utf16 '' Security Issues''
      else if u = utf16 ''SECRET'' \<or> u = utf16 ''SECRETS'' then key_sign @ utf16 '' Secrets''
      else if u = utf16 ''IAC'' then cloud_sign @ utf16 '' Infrastructure''
      else if u = utf16 ''SBOM'' then clipboard_sign @ utf16 '' Software Bill of Materials''
      else toUpperCase (take 1 type) @ toLowerCase (drop 1 type))"

text \<open>
  What the case conversions do to a string of ASCII characters: each of the letters
  \<open>a\<close> to \<open>z\<close> is replaced by its capital, respectively each of \<open>A\<close> to \<open>Z\<close> by its small
  letter, and every other character is kept.
\<close>

definition is_ascii :: "jsstring \<Rightarrow> bool" where
  "is_ascii s = list_all (\<lambda>u. u < 128) s"

definition ascii_upper :: "nat \<Rightarrow> nat" where
  "ascii_upper u = (if 97 \<le> u \<and> u \<le> 122 then u - 32 else u)"

definition ascii_lower :: "nat \<Rightarrow> nat" where
  "ascii_lower u = (if 65 \<le> u \<and> u \<le> 90 then u + 32 else u)"

text \<open>
  An excerpt of the case conversions of Unicode: the ASCII letters, and three characters
  outside ASCII. The Kelvin sign \<open>U+212A\<close> is a capital letter whose small letter is \<open>k\<close>;
  the capital of the dotless i \<open>U+0131\<close> is \<open>I\<close>; the capital of the sharp s \<open>U+00DF\<close>
  is \<open>SS\<close>. On a string of these characters the two functions are what
  \<open>toUpperCase\<close> and \<open>toLowerCase\<close> return; other characters are not in the excerpt and
  are kept.
\<close>

definition upper_excerpt :: "nat \<Rightarrow> jsstring" where
  "upper_excerpt u =
     (if u < 128 then [ascii_upper u]
      else if u = 0x0131 then [0x49]
      else if u = 0x00DF then [0x53, 0x53]
      else [u])"

definition lower_excerpt :: "nat \<Rightarrow> jsstring" where
  "lower_excerpt u =
     (if u < 128 then [ascii_lower u]
      else if u = 0x212A then [0x6B]
      else [u])"

definition toUpperCase_excerpt :: "jsstring \<Rightarrow> jsstring" where
  "toUpperCase_excerpt s = concat (map upper_excerpt s)"

definition toLowerCase_excerpt :: "jsstring \<Rightarrow> jsstring" where
  "toLowerCase_excerpt s = concat (map lower_excerpt s)"

section \<open>The dashboard URL (\<open>CodeThreatAction.generateScanUrl\<close>)\<close>

definition generateScanUrl :: "ActionInputs \<Rightarrow> string \<Rightarrow> string \<Rightarrow> string" where
  "generateScanUrl inputs scanId repositoryId =
     (let baseUrl = replace_first ''api.'' ''app.'' (replace_first ''/api'' [] (serverUrl inputs))
      in baseUrl @ ''/'' @ organizationSlug inputs @ ''/scans/'' @ scanId)"

section \<open>What the action exchanges with its environment\<close>

text \<open>
  JSON values, as \<open>JSON.parse\<close> returns them. An object is the list of its properties,
  one binding for each name.
\<close>

datatype json =
    JNull
  | JBool bool
  | JNumber rat
  | JString string
  | JArray "json list"
  | JObject "(string \<times> json) list"

text \<open>
  Reading a property: \<open>None\<close> is \<open>undefined\<close>. Reading a property of \<open>null\<close> throws a
  \<open>TypeError\<close>. A number, a string, a boolean and an array have none of the properties
  this program reads (\<open>$schema\<close>, \<open>version\<close>, \<open>runs\<close>, \<open>results\<close>).
\<close>

definition get_property :: "json \<Rightarrow> string \<Rightarrow> exn + json option" where
  "get_property v name =
     (case v of
        JNull \<Rightarrow> Inl (Error (''Cannot read properties of null (reading '' @ [CHR 0x27] @ name
                             @ [CHR 0x27] @ '')''))
      | JObject props \<Rightarrow> Inr (map_of props name)
      | _ \<Rightarrow> Inr None)"

text \<open>Truthiness, as \<open>!x\<close> tests it.\<close>

fun truthy :: "json option \<Rightarrow> bool" where
  "truthy None = False"
| "truthy (Some JNull) = False"
| "truthy (Some (JBool b)) = b"
| "truthy (Some (JNumber n)) = (n \<noteq> 0)"
| "truthy (Some (JString s)) = (s \<noteq> [])"
| "truthy (Some (JArray xs)) = True"
| "truthy (Some (JObject props)) = True"

text \<open>The answers of the remote scan client (\<open>@codethreat/appsec-cli\<close>).\<close>

record ImportResult =
  alreadyExists :: bool
  repository_id :: string
  repository_name :: string

record ScanResult =
  synchronous :: bool
  scan_id :: string
  has_results :: bool

record Summary =
  total :: int
  critical :: int
  high :: int
  medium :: int
  low :: int

record ExportResult =
  results :: "string + json"
  summary :: "Summary option"
  scan_repository_id :: string
  scan_securityScore :: "int option"
  scan_scanDuration :: "int option"

record UploadResult =
  upload_id :: string
  upload_url :: string

text \<open>
  The environment of a run: the inputs of the workflow step as \<open>core.getInput\<close> returns
  them (trimmed, the empty string when unset), the \<open>GITHUB_TOKEN\<close> variable, the GitHub
  context, and the outcome of every call the action makes outside itself, as a function of
  the arguments the action passes: \<open>None\<close> or \<open>Inr\<close> when the call returns, \<open>Some\<close> or
  \<open>Inl\<close> with what it throws. The code-scanning endpoint is given the text of the file (the
  action sends it base64-encoded). The GitHub context is taken to be available (the
  runner sets it), and the answers of the scan client to have the fields their types
  declare.
\<close>

record world =
  getInput :: "string \<Rightarrow> string"
  env_GITHUB_TOKEN :: "string option"
  context_owner :: string
  context_repo :: string
  context_ref :: string
  api_validateAuth :: "exn option"
  api_importRepository :: "string \<Rightarrow> string \<Rightarrow> string \<Rightarrow> string \<Rightarrow> exn + ImportResult"
  api_runScan :: "string \<Rightarrow> string \<Rightarrow> string \<Rightarrow> bool \<Rightarrow> jsnum \<Rightarrow> jsnum \<Rightarrow> exn + ScanResult"
  api_exportScanResults :: "string \<Rightarrow> string \<Rightarrow> exn + ExportResult"
  path_resolve :: "string \<Rightarrow> string"
  fs_writeFile :: "string \<Rightarrow> string \<Rightarrow> exn option"
  fs_pathExists :: "string \<Rightarrow> bool"
  fs_readFile :: "string \<Rightarrow> exn + string"
  JSON_parse :: "string \<Rightarrow> exn + json"
  JSON_stringify :: "json \<Rightarrow> string"
  octokit_uploadSarif :: "string \<Rightarrow> exn + UploadResult"

text \<open>
  What a run leaves behind, in order: the warnings and errors it logs (\<open>core.warning\<close>,
  \<open>core.error\<close>; an error is logged with the message of the exception as its detail),
  the calls to the scan client, the files it writes and reads, and the upload to the
  code-scanning endpoint. Informational and debug lines and log groups are not recorded;
  no result depends on them.
\<close>

datatype event =
    Warning string
  | ErrorLog string string
  | ClientCall string
  | FileWrite string string
  | FileRead string
  | CodeScanningUpload string

text \<open>
  A computation either returns a value or throws, and leaves events. \<open>io_catch\<close> is
  \<open>try { ... } catch (e) { ... }\<close>.
\<close>

type_synonym 'a io = "(exn + 'a) \<times> event list"

definition io_return :: "'a \<Rightarrow> 'a io" where
  "io_return x = (Inr x, [])"

definition io_throw :: "exn \<Rightarrow> 'a io" where
  "io_throw e = (Inl e, [])"

definition io_emit :: "event \<Rightarrow> unit io" where
  "io_emit ev = (Inr (), [ev])"

definition io_lift :: "exn + 'a \<Rightarrow> 'a io" where
  "io_lift r = (r, [])"

definition io_call :: "event \<Rightarrow> exn + 'a \<Rightarrow> 'a io" where
  "io_call ev r = (r, [ev])"

definition io_bind :: "'a io \<Rightarrow> ('a \<Rightarrow> 'b io) \<Rightarrow> 'b io" where
  "io_bind m f =
     (case m of
        (Inl e, t) \<Rightarrow> (Inl e, t)
      | (Inr x, t) \<Rightarrow> (case f x of (r, t') \<Rightarrow> (r, t @ t')))"

definition io_catch :: "'a io \<Rightarrow> (exn \<Rightarrow> 'a io) \<Rightarrow> 'a io" where
  "io_catch m h =
     (case m of
        (Inl e, t) \<Rightarrow> (case h e of (r, t') \<Rightarrow> (r, t @ t'))
      | (Inr x, t) \<Rightarrow> (Inr x, t))"

definition unit_result :: "exn option \<Rightarrow> exn + unit" where
  "unit_result r = (case r of None \<Rightarrow> Inr () | Some e \<Rightarrow> Inl e)"

text \<open>The same sequencing for code that leaves no events.\<close>

definition bind_result :: "exn + 'a \<Rightarrow> ('a \<Rightarrow> exn + 'b) \<Rightarrow> exn + 'b" where
  "bind_result m f = (case m of Inl e \<Rightarrow> Inl e | Inr x \<Rightarrow> f x)"

section \<open>The toolkit (\<open>@actions/core\<close>)\<close>

text \<open>
  \<open>core.getInput(name, {required: true})\<close> throws when the input is empty, and
  \<open>core.getBooleanInput\<close> accepts the six spellings of YAML 1.2 and throws a
  \<open>TypeError\<close> for anything else.
\<close>

definition getInput_required :: "world \<Rightarrow> string \<Rightarrow> exn + string" where
  "getInput_required w name =
     (if getInput w name = [] then Inl (Error (''Input required and not supplied: '' @ name))
      else Inr (getInput w name))"

definition getBooleanInput :: "world \<Rightarrow> string \<Rightarrow> exn + bool" where
  "getBooleanInput w name =
     (let val = getInput w name in
      if val \<in> set [''true'', ''True'', ''TRUE''] then Inr True
      else if val \<in> set [''false'', ''False'', ''FALSE''] then Inr False
      else Inl (Error (''Input does not meet YAML 1.2 '' @ [CHR 0x22] @ ''Core Schema''
                       @ [CHR 0x22] @ '' specification: '' @ name @ [CHR 0x0A]
                       @ ''Support boolean input list: ''
                       @ ''`true | True | TRUE | false | False | FALSE`'')))"

text \<open>\<open>new Logger()\<close> reads the \<open>verbose\<close> input.\<close>

definition Logger_constructor :: "world \<Rightarrow> exn + bool" where
  "Logger_constructor w = getBooleanInput w ''verbose''"

section \<open>Reading the inputs (\<open>parseInputs\<close> of \<open>lib/inputs.ts\<close>)\<close>

definition validFormats :: "string list" where
  "validFormats = [''json'', ''sarif'', ''csv'', ''xml'', ''junit'']"

fun join :: "string \<Rightarrow> string list \<Rightarrow> string" where
  "join sep [] = []"
| "join sep [x] = x"
| "join sep (x # y # ys) = x @ sep @ join sep (y # ys)"

text \<open>
  The steps of \<open>parseInputs\<close> in the order of the source; the first one that throws ends
  the function. The GitHub context is read only for the defaults of the repository URL
  and the branch.
\<close>

definition parseInputs :: "world \<Rightarrow> exn + ActionInputs" where
  "parseInputs w =
     bind_result (Logger_constructor w) (\<lambda>logger.
     bind_result (getInput_required w ''api-key'') (\<lambda>apiKey'.
     if apiKey' = [] then
       Inl (Error ''API key is required. Please set the api-key input or CT_API_KEY secret.'')
     else
     bind_result (getInput_required w ''organization-slug'') (\<lambda>organizationSlug'.
     if organizationSlug' = [] then
       Inl (Error (''Organization slug is required. ''
                   @ ''Please provide your CodeThreat organization slug.''))
     else
     bind_result (getBooleanInput w ''wait-for-completion'') (\<lambda>waitForCompletion'.
     bind_result (getBooleanInput w ''upload-sarif'') (\<lambda>uploadSarif'.
     bind_result (getBooleanInput w ''fail-on-critical'') (\<lambda>failOnCritical'.
     bind_result (getBooleanInput w ''fail-on-high'') (\<lambda>failOnHigh'.
     bind_result (getBooleanInput w ''skip-import'') (\<lambda>skipImport'.
     bind_result (getBooleanInput w ''verbose'') (\<lambda>verbose'.
     let timeout' = parseInt (or_else (getInput w ''timeout'') ''43200'');
         pollInterval' = parseInt (or_else (getInput w ''poll-interval'') ''30'');
         maxViolations' = parseInt (or_else (getInput w ''max-violations'') ''0'')
     in
     if js_lt timeout' (Num 60) \<or> js_gt timeout' (Num 86400) then
       Inl (Error ''Timeout must be between 60 and 86400 seconds (1 minute to 24 hours)'')
     else if js_lt pollInterval' (Num 10) \<or> js_gt pollInterval' (Num 60) then
       Inl (Error ''Poll interval must be between 10 and 60 seconds'')
     else
     let outputFormat' = or_else (getInput w ''output-format'') ''sarif'' in
     if outputFormat' \<notin> set validFormats then
       Inl (Error (''Invalid output format: '' @ outputFormat' @ ''. Valid formats: ''
                   @ join '', '' validFormats))
     else
     let outputFile' = or_else (getInput w ''output-file'')
           (''codethreat-results.'' @ (if outputFormat' = ''junit'' then ''xml'' else outputFormat'));
         repositoryUrl' = or_else (getInput w ''repository-url'')
           (''https://github.com/'' @ context_owner w @ ''/'' @ context_repo w @ ''.git'');
         branch' = or_else (getInput w ''branch'')
           (replace_first ''refs/heads/'' [] (context_ref w))
     in
     bind_result (getInput_required w ''server-url'') (\<lambda>serverUrl'.
     Inr \<lparr> apiKey = apiKey', serverUrl = serverUrl', organizationSlug = organizationSlug',
           repositoryUrl = repositoryUrl', branch = branch', scanTypes = [],
           waitForCompletion = waitForCompletion', timeout = timeout',
           pollInterval = pollInterval', outputFormat = outputFormat',
           outputFile = outputFile', uploadSarif = uploadSarif',
           failOnCritical = failOnCritical', failOnHigh = failOnHigh',
           maxViolations = maxViolations', skipImport = skipImport',
           verbose = verbose' \<rparr>))))))))))"

section \<open>Publishing findings (\<open>SarifUploader\<close>)\<close>

text \<open>
  The constructor takes the token from the \<open>github-token\<close> input or, when that is
  empty, from \<open>GITHUB_TOKEN\<close>.
\<close>

definition SarifUploader_constructor :: "world \<Rightarrow> exn + unit" where
  "SarifUploader_constructor w =
     (let token = (if getInput w ''github-token'' \<noteq> [] then Some (getInput w ''github-token'')
                   else env_GITHUB_TOKEN w)
      in if token = None \<or> token = Some [] then
           Inl (Error (''GitHub token is required for SARIF upload. Please add ''
                       @ [CHR 0x22] @ ''github-token: ${{ secrets.GITHUB_TOKEN }}'' @ [CHR 0x22]
                       @ '' to action inputs or ensure proper permissions are set.''))
         else Inr ())"

text \<open>One step of the \<open>reduce\<close> that counts the results, and the \<open>reduce\<close> itself.\<close>

definition run_results_length :: "json \<Rightarrow> exn + nat" where
  "run_results_length run =
     bind_result (get_property run ''results'')
       (\<lambda>r. case r of Some (JArray rs) \<Rightarrow> Inr (length rs) | _ \<Rightarrow> Inr 0)"

fun total_results :: "json list \<Rightarrow> nat \<Rightarrow> exn + nat" where
  "total_results [] acc = Inr acc"
| "total_results (run # runs) acc =
     bind_result (run_results_length run) (\<lambda>n. total_results runs (acc + n))"

definition validateSarifFormat :: "json \<Rightarrow> unit io" where
  "validateSarifFormat sarifData =
     io_bind (io_lift (get_property sarifData ''$schema'')) (\<lambda>schema.
     if \<not> truthy schema then io_throw (Error ''Invalid SARIF: Missing $schema property'')
     else
     io_bind (io_lift (get_property sarifData ''version'')) (\<lambda>version.
     if \<not> truthy version then io_throw (Error ''Invalid SARIF: Missing version property'')
     else
     io_bind (io_lift (get_property sarifData ''runs'')) (\<lambda>runs.
     case runs of
       Some (JArray rs) \<Rightarrow>
         io_bind (if length rs = 0 then
                    io_emit (Warning (''SARIF file contains no runs - ''
                                      @ ''this may indicate no results were found''))
                  else io_return ()) (\<lambda>_.
         io_bind (io_lift (total_results rs 0)) (\<lambda>totalResults.
         io_return ()))
     | _ \<Rightarrow> io_throw (Error ''Invalid SARIF: Missing or invalid runs array''))))"

definition SarifUploader_uploadSarif :: "world \<Rightarrow> string \<Rightarrow> unit io" where
  "SarifUploader_uploadSarif w sarifFilePath =
     io_catch
       (io_bind (if \<not> fs_pathExists w sarifFilePath then
                   io_throw (Error (''SARIF file not found: '' @ sarifFilePath))
                 else io_return ()) (\<lambda>_.
        io_bind (io_call (FileRead sarifFilePath) (fs_readFile w sarifFilePath)) (\<lambda>sarifContent.
        io_bind (io_lift (JSON_parse w sarifContent)) (\<lambda>sarifData.
        io_bind (validateSarifFormat sarifData) (\<lambda>_.
        io_bind (io_call (CodeScanningUpload sarifContent)
                   (octokit_uploadSarif w sarifContent)) (\<lambda>uploadResult.
        io_return ()))))))
       (\<lambda>error.
          if (case error of Error m \<Rightarrow> str_includes m ''Advanced Security'' | Thrown \<Rightarrow> False)
          then io_throw (Error (''GitHub Advanced Security is required for SARIF upload. ''
                 @ ''Please enable it in repository settings or set upload-sarif: false''))
          else io_throw (Error (''SARIF upload failed: '' @ error_message error)))"

section \<open>The orchestrator (\<open>CodeThreatAction\<close>)\<close>

text \<open>
  The constructor copies the configuration into the environment of the process for the
  scan client (which the model does not read back) and constructs the scan client, taken
  to return, and the uploader of findings. The object it returns is represented by its
  inputs.
\<close>

definition CodeThreatAction_constructor :: "world \<Rightarrow> ActionInputs \<Rightarrow> exn + ActionInputs" where
  "CodeThreatAction_constructor w inputs =
     bind_result (SarifUploader_constructor w) (\<lambda>sarifUploader. Inr inputs)"

definition validateAuthentication :: "world \<Rightarrow> unit io" where
  "validateAuthentication w =
     io_catch
       (io_call (ClientCall ''validateAuth'') (unit_result (api_validateAuth w)))
       (\<lambda>error. io_throw (Error (''Authentication failed: '' @ error_message error)))"

definition warning_sign :: string where
  "warning_sign = [CHR 0xE2, CHR 0x9A, CHR 0xA0, CHR 0xEF, CHR 0xB8, CHR 0x8F]"

definition bulb_sign :: string where
  "bulb_sign = [CHR 0xF0, CHR 0x9F, CHR 0x92, CHR 0xA1]"

definition link_sign :: string where
  "link_sign = [CHR 0xF0, CHR 0x9F, CHR 0x94, CHR 0x97]"

definition cross_sign :: string where
  "cross_sign = [CHR 0xE2, CHR 0x9D, CHR 0x8C]"

definition newline :: string where
  "newline = [CHR 0x0A]"

definition setupRepository :: "world \<Rightarrow> ActionInputs \<Rightarrow> string io" where
  "setupRepository w inputs =
     io_catch
       (let normalizedUrl = normalizeGitHubUrl (repositoryUrl inputs) in
        io_catch
          (io_bind
             (io_call (ClientCall ''importRepository'')
                (api_importRepository w normalizedUrl (organizationSlug inputs)
                   (extractRepoName normalizedUrl) (branch inputs))) (\<lambda>importResult.
           if alreadyExists importResult then io_return (repository_id importResult)
           else
             io_bind (io_emit (Warning (warning_sign @ '' Repository was auto-imported - ''
                        @ ''this means it wasn't pre-imported in CodeThreat''))) (\<lambda>_.
             io_return (repository_id importResult))))
          (\<lambda>importError.
             io_throw (Error (
               ''Repository import failed: '' @ error_message importError @ newline
               @ newline @ ''Original URL: '' @ repositoryUrl inputs
               @ newline @ ''Normalized URL: '' @ normalizedUrl
               @ newline @ ''Organization: '' @ organizationSlug inputs
               @ newline @ newline @ bulb_sign @ '' Troubleshooting:''
               @ newline @ ''1. Verify the repository URL is correct''
               @ newline @ ''2. Check that the organization slug is correct''
               @ newline @ ''3. Ensure your API key has permission to import repositories''
               @ newline @ ''4. Import the repository manually via CodeThreat web interface first''
               @ newline @ ''5. Make sure the repository exists in your CodeThreat organization''
               @ newline @ newline @ link_sign
               @ '' The backend supports flexible URL matching for GitHub repositories.''))))
       (\<lambda>error. io_throw (Error (''Repository setup failed: '' @ error_message error)))"

text \<open>
  After a synchronous scan that reports results the action exports them once more as
  JSON to print a breakdown by violation type; the breakdown is informational and a
  failure of that export is swallowed.
\<close>

definition executeScan :: "world \<Rightarrow> ActionInputs \<Rightarrow> string \<Rightarrow> string io" where
  "executeScan w inputs repositoryId =
     io_catch
       (io_bind (io_call (ClientCall ''runScan'')
                   (api_runScan w repositoryId (organizationSlug inputs) (branch inputs)
                      (waitForCompletion inputs) (timeout inputs) (pollInterval inputs)))
          (\<lambda>scanResult.
        io_bind
          (if synchronous scanResult then
             (if has_results scanResult then
                io_catch
                  (io_bind (io_call (ClientCall ''exportScanResults'')
                              (api_exportScanResults w (scan_id scanResult) ''json''))
                     (\<lambda>detailedResults. io_return ()))
                  (\<lambda>error. io_return ())
              else io_return ())
           else
             io_emit (Warning ''Consider setting wait-for-completion: true for CI/CD workflows''))
          (\<lambda>_.
        io_return (scan_id scanResult))))
       (\<lambda>error. io_throw (Error (''Scan execution failed: '' @ error_message error)))"

definition processResults :: "world \<Rightarrow> ActionInputs \<Rightarrow> string \<Rightarrow> Results io" where
  "processResults w inputs scanId =
     io_catch
       (io_bind (io_call (ClientCall ''exportScanResults'')
                   (api_exportScanResults w scanId (outputFormat inputs))) (\<lambda>scanResults.
        let outputPath = path_resolve w (outputFile inputs);
            resultsData = (case results scanResults of
                             Inl text \<Rightarrow> text
                           | Inr structured \<Rightarrow> JSON_stringify w structured)
        in
        io_bind (io_call (FileWrite outputPath resultsData)
                   (unit_result (fs_writeFile w outputPath resultsData))) (\<lambda>_.
        let summary' = (case summary scanResults of
                          Some s \<Rightarrow> s
                        | None \<Rightarrow> \<lparr> total = 0, critical = 0, high = 0, medium = 0, low = 0 \<rparr>);
            scanUrl' = generateScanUrl inputs scanId (scan_repository_id scanResults)
        in
        io_return \<lparr> resultsFile = Some outputPath,
                    violationCount = total summary',
                    criticalCount = critical summary',
                    highCount = high summary',
                    mediumCount = medium summary',
                    lowCount = low summary',
                    securityScore = scan_securityScore scanResults,
                    scanDuration = scan_scanDuration scanResults,
                    scanUrl = Some scanUrl' \<rparr>)))
       (\<lambda>error. io_throw (Error (''Results processing failed: '' @ error_message error)))"

definition uploadSarifResults :: "world \<Rightarrow> string \<Rightarrow> unit io" where
  "uploadSarifResults w resultsFile' =
     io_catch
       (SarifUploader_uploadSarif w resultsFile')
       (\<lambda>error. io_emit (Warning (''SARIF upload failed: '' @ error_message error)))"

text \<open>\<open>{...results, repositoryId, scanId}\<close>.\<close>

definition make_outputs :: "Results \<Rightarrow> string \<Rightarrow> string \<Rightarrow> ActionOutputs" where
  "make_outputs r repositoryId scanId =
     \<lparr> out_scanId = scanId, out_repositoryId = repositoryId,
       out_resultsFile = resultsFile r, out_violationCount = violationCount r,
       out_criticalCount = criticalCount r, out_highCount = highCount r,
       out_mediumCount = mediumCount r, out_lowCount = lowCount r,
       out_securityScore = securityScore r, out_scanDuration = scanDuration r,
       out_scanUrl = scanUrl r \<rparr>"

definition execute :: "world \<Rightarrow> ActionInputs \<Rightarrow> ActionOutputs io" where
  "execute w inputs =
     io_catch
       (io_bind (validateAuthentication w) (\<lambda>_.
        io_bind (setupRepository w inputs) (\<lambda>repositoryId.
        io_bind (executeScan w inputs repositoryId) (\<lambda>scanId.
        io_bind (processResults w inputs scanId) (\<lambda>results'.
        io_bind
          (case resultsFile results' of
             Some file \<Rightarrow>
               if uploadSarif inputs \<and> outputFormat inputs = ''sarif'' \<and> file \<noteq> [] then
                 uploadSarifResults w file
               else io_return ()
           | None \<Rightarrow> io_return ()) (\<lambda>_.
        io_bind (io_lift (checkFailureConditions inputs results')) (\<lambda>_.
        io_return (make_outputs results' repositoryId scanId))))))))
       (\<lambda>error.
          io_bind (io_emit (ErrorLog ''Action execution failed'' (error_message error))) (\<lambda>_.
          io_throw error))"

section \<open>The entry point (\<open>run\<close>)\<close>

text \<open>
  How a run ends: the outputs are set, or the step is marked failed with a message
  (\<open>core.setFailed\<close>), or the promise of \<open>run\<close> is rejected because the logger could not
  be constructed, which is outside the \<open>try\<close>.
\<close>

datatype outcome = Completed ActionOutputs | Failed string | Rejected exn

definition run :: "world \<Rightarrow> outcome \<times> event list" where
  "run w =
     (case Logger_constructor w of
        Inl e \<Rightarrow> (Rejected e, [])
      | Inr logger \<Rightarrow>
          (case io_bind (io_lift (parseInputs w)) (\<lambda>inputs.
                io_bind (io_lift (CodeThreatAction_constructor w inputs)) (\<lambda>action.
                execute w action)) of
             (Inr outputs, t) \<Rightarrow> (Completed outputs, t)
           | (Inl error, t) \<Rightarrow>
               (Failed (error_message error),
                t @ [ErrorLog (cross_sign @ '' CodeThreat Security Scan failed'')
                       (error_message error)])))"

section \<open>Example runs\<close>

text \<open>
  A workflow step for the repository \<open>acme/widget\<close> that sets every input, a token in the
  environment, and a scan service that finds the repository, scans it synchronously and
  reports no violation; the findings file is a SARIF document with no runs.
\<close>

definition example_inputs :: "(string \<times> string) list" where
  "example_inputs =
     [(''api-key'', ''key''), (''organization-slug'', ''acme''),
      (''server-url'', ''https://app.codethreat.com''),
      (''wait-for-completion'', ''true''), (''upload-sarif'', ''true''),
      (''fail-on-critical'', ''false''), (''fail-on-high'', ''false''),
      (''skip-import'', ''false''), (''verbose'', ''false''),
      (''timeout'', ''43200''), (''poll-interval'', ''30''), (''max-violations'', ''0''),
      (''output-format'', ''sarif'')]"

definition empty_sarif :: json where
  "empty_sarif =
     JObject [(''$schema'', JString ''https://json.schemastore.org/sarif-2.1.0.json''),
              (''version'', JString ''2.1.0''), (''runs'', JArray [])]"

definition example_world :: world where
  "example_world =
     \<lparr> getInput = (\<lambda>name. case map_of example_inputs name of Some v \<Rightarrow> v | None \<Rightarrow> []),
       env_GITHUB_TOKEN = Some ''ghs_token'',
       context_owner = ''acme'', context_repo = ''widget'', context_ref = ''refs/heads/main'',
       api_validateAuth = None,
       api_importRepository = (\<lambda>url org name ref.
          Inr \<lparr> alreadyExists = True, repository_id = ''repo-1'', repository_name = name \<rparr>),
       api_runScan = (\<lambda>repositoryId org ref wait limit interval.
          Inr \<lparr> synchronous = True, scan_id = ''scan-1'', has_results = False \<rparr>),
       api_exportScanResults = (\<lambda>scanId format.
          Inr \<lparr> results = Inr empty_sarif, summary = None, scan_repository_id = ''repo-1'',
                scan_securityScore = None, scan_scanDuration = None \<rparr>),
       path_resolve = (\<lambda>p. ''/work/'' @ p),
       fs_writeFile = (\<lambda>p d. None),
       fs_pathExists = (\<lambda>p. True),
       fs_readFile = (\<lambda>p. Inr ''{}''),
       JSON_parse = (\<lambda>text. Inr empty_sarif),
       JSON_stringify = (\<lambda>v. ''{}''),
       octokit_uploadSarif = (\<lambda>sarif. Inr \<lparr> upload_id = ''1'', upload_url = ''u'' \<rparr>) \<rparr>"

text \<open>
  The configuration of that step as \<open>parseInputs\<close> returns it, and the results of a scan
  that found nothing.
\<close>

definition default_inputs :: ActionInputs where
  "default_inputs = \<lparr> apiKey = ''key'', serverUrl = ''https://app.codethreat.com'',
     organizationSlug = ''acme'', repositoryUrl = ''https://github.com/acme/widget.git'',
     branch = ''main'', scanTypes = [], waitForCompletion = True, timeout = Num 43200,
     pollInterval = Num 30, outputFormat = ''sarif'', outputFile = ''codethreat-results.sarif'',
     uploadSarif = True, failOnCritical = False, failOnHigh = False, maxViolations = Num 0,
     skipImport = False, verbose = False \<rparr>"

definition no_findings :: Results where
  "no_findings = \<lparr> resultsFile = Some ''/work/codethreat-results.sarif'', violationCount = 0,
     criticalCount = 0, highCount = 0, mediumCount = 0, lowCount = 0,
     securityScore = None, scanDuration = None,
     scanUrl = Some ''https://app.codethreat.com/acme/scans/scan-1'' \<rparr>"

text \<open>The same environment with one input of the step changed.\<close>

definition with_input :: "world \<Rightarrow> string \<Rightarrow> string \<Rightarrow> world" where
  "with_input w name v = w\<lparr>getInput := (getInput w)(name := v)\<rparr>"

text \<open>
  The same environment when the code-scanning endpoint refuses the upload, and when
  the step has no token and asks for no upload.
\<close>

definition upload_denied_world :: world where
  "upload_denied_world =
     example_world\<lparr>octokit_uploadSarif :=
       (\<lambda>sarif. Inl (Error ''Resource not accessible by integration''))\<rparr>"

definition no_token_world :: world where
  "no_token_world =
     with_input (example_world\<lparr>env_GITHUB_TOKEN := None\<rparr>) ''upload-sarif'' ''false''"

section \<open>Properties of the action\<close>

subsection \<open>Failure thresholds\<close>

text \<open>
  C1. After a successful scan and export: with fail-on-critical enabled and a critical
  count above 0 the check raises the critical-vulnerabilities error, and with a critical
  count of 0 it does not (it returns when no other check is crossed); with fail-on-high
  enabled and a high count above 0 it raises the high-severity error; with a positive
  max-violations threshold a total strictly above it raises, and a total equal to it does
  not when no other check is crossed; and the check returns without raising exactly when
  no enabled check is crossed.
\<close>

theorem checkFailureConditions_thresholds:
  "(failOnCritical inputs \<and> 0 < criticalCount r \<longrightarrow>
      checkFailureConditions inputs r =
        Inl (Error (''Build failed: '' @ toString (criticalCount r)
                    @ '' critical vulnerabilities found'')))
   \<and> (failOnCritical inputs \<and> criticalCount r = 0 \<longrightarrow>
      checkFailureConditions inputs r \<noteq>
        Inl (Error (''Build failed: '' @ toString (criticalCount r)
                    @ '' critical vulnerabilities found'')))
   \<and> (failOnCritical inputs \<and> criticalCount r = 0
      \<and> \<not> (failOnHigh inputs \<and> 0 < highCount r)
      \<and> \<not> (\<exists>k. maxViolations inputs = Num k \<and> 0 < k \<and> k < violationCount r) \<longrightarrow>
      checkFailureConditions inputs r = Inr ())
   \<and> (\<not> (failOnCritical inputs \<and> 0 < criticalCount r)
      \<and> failOnHigh inputs \<and> 0 < highCount r \<longrightarrow>
      checkFailureConditions inputs r =
        Inl (Error (''Build failed: '' @ toString (highCount r)
                    @ '' high severity vulnerabilities found'')))
   \<and> (maxViolations inputs = Num m \<and> 0 < m \<and> m < violationCount r \<longrightarrow>
      isl (checkFailureConditions inputs r))
   \<and> (maxViolations inputs = Num m \<and> 0 < m \<and> m < violationCount r
      \<and> \<not> (failOnCritical inputs \<and> 0 < criticalCount r)
      \<and> \<not> (failOnHigh inputs \<and> 0 < highCount r) \<longrightarrow>
      checkFailureConditions inputs r =
        Inl (Error (''Build failed: '' @ toString (violationCount r)
                    @ '' violations exceed maximum allowed ('' @ toString m @ '')'')))
   \<and> (maxViolations inputs = Num m \<and> 0 < m \<and> violationCount r = m
      \<and> \<not> (failOnCritical inputs \<and> 0 < criticalCount r)
      \<and> \<not> (failOnHigh inputs \<and> 0 < highCount r) \<longrightarrow>
      checkFailureConditions inputs r = Inr ())
   \<and> (checkFailureConditions inputs r = Inr () \<longleftrightarrow>
        \<not> (failOnCritical inputs \<and> 0 < criticalCount r)
      \<and> \<not> (failOnHigh inputs \<and> 0 < highCount r)
      \<and> \<not> (\<exists>k. maxViolations inputs = Num k \<and> 0 < k \<and> k < violationCount r))"
  by (cases "maxViolations inputs") (auto simp: checkFailureConditions_def js_gt_def)

theorem checkFailureConditions_thresholds_witness:
  "checkFailureConditions (default_inputs\<lparr>failOnCritical := True\<rparr>)
       (no_findings\<lparr>criticalCount := 1\<rparr>)
     = Inl (Error ''Build failed: 1 critical vulnerabilities found'')
   \<and> checkFailureConditions (default_inputs\<lparr>failOnCritical := True\<rparr>) no_findings = Inr ()
   \<and> checkFailureConditions (default_inputs\<lparr>failOnHigh := True\<rparr>)
       (no_findings\<lparr>highCount := 1\<rparr>)
     = Inl (Error ''Build failed: 1 high severity vulnerabilities found'')
   \<and> checkFailureConditions (default_inputs\<lparr>maxViolations := Num 10\<rparr>)
       (no_findings\<lparr>violationCount := 11\<rparr>)
     = Inl (Error ''Build failed: 11 violations exceed maximum allowed (10)'')
   \<and> checkFailureConditions (default_inputs\<lparr>maxViolations := Num 10\<rparr>)
       (no_findings\<lparr>violationCount := 10\<rparr>) = Inr ()"
  using
    checkFailureConditions_thresholds
      [where inputs = "default_inputs\<lparr>failOnCritical := True\<rparr>"
         and r = "no_findings\<lparr>criticalCount := 1\<rparr>" and m = 0]
    checkFailureConditions_thresholds
      [where inputs = "default_inputs\<lparr>failOnCritical := True\<rparr>"
         and r = "no_findings" and m = 0]
    checkFailureConditions_thresholds
      [where inputs = "default_inputs\<lparr>failOnHigh := True\<rparr>"
         and r = "no_findings\<lparr>highCount := 1\<rparr>" and m = 0]
    checkFailureConditions_thresholds
      [where inputs = "default_inputs\<lparr>maxViolations := Num 10\<rparr>"
         and r = "no_findings\<lparr>violationCount := 11\<rparr>" and m = 10]
    checkFailureConditions_thresholds
      [where inputs = "default_inputs\<lparr>maxViolations := Num 10\<rparr>"
         and r = "no_findings\<lparr>violationCount := 10\<rparr>" and m = 10]
  by (simp add: default_inputs_def no_findings_def toString_def string_of_nat.simps)

subsection \<open>Normalising a repository URL\<close>

lemma prefix_append_git:
  assumes "prefix p (u @ ''.git'')" "\<not> prefix p u" "CHR ''.'' \<notin> set p"
  shows False
proof -
  from assms(1) have "prefix p u \<or> (\<exists>us. p = u @ us \<and> prefix us ''.git'')"
    by (simp add: prefix_append)
  with assms(2) obtain us where us: "p = u @ us" "prefix us ''.git''" by blast
  from us(1) assms(2) have "us \<noteq> []" by auto
  with us(2) have "hd us = CHR ''.''" by (cases us) auto
  with \<open>us \<noteq> []\<close> have "CHR ''.'' \<in> set us" by (cases us) auto
  with us(1) assms(3) show False by simp
qed

lemma no_new_prefix_git:
  "\<not> prefix ''git://'' u \<Longrightarrow> \<not> prefix ''git://'' (u @ ''.git'')"
  "\<not> prefix ''https://'' u \<Longrightarrow> \<not> prefix ''https://'' (u @ ''.git'')"
  "\<not> prefix ''http://'' u \<Longrightarrow> \<not> prefix ''http://'' (u @ ''.git'')"
  by (auto dest: prefix_append_git)

lemma no_new_prefix_github:
  "\<not> prefix ''github.com'' u \<Longrightarrow> \<not> prefix ''github.com'' (u @ ''.git'')"
  by (auto simp: prefix_append Cons_eq_append_conv prefix_Cons split: list.splits)

lemma no_new_prefix_ssh:
  "\<not> prefix ''git@github.com:'' u \<Longrightarrow> \<not> prefix ''git@github.com:'' (u @ ''.git'')"
  by (auto simp: prefix_append Cons_eq_append_conv prefix_Cons split: list.splits)

lemmas normalize_defs =
  normalizeGitHubUrl_def Let_def replace_prefix_def startsWith_def endsWith_def

lemma normalize_fixed:
  assumes "suffix ''.git'' v" "\<not> prefix ''git://'' v" "\<not> prefix ''git@github.com:'' v"
    "prefix ''https://'' v \<or> prefix ''http://'' v \<or> \<not> prefix ''github.com'' v"
  shows "normalizeGitHubUrl v = v"
  using assms by (auto simp: normalize_defs)

lemma ensure_git_suffix:
  "suffix ''.git'' (if \<not> suffix ''.git'' w then w @ ''.git'' else w)"
  by (simp add: suffixI)

lemma ensure_git_protocol:
  assumes "prefix ''https://'' w \<or> prefix ''http://'' w"
  shows "\<not> prefix ''git://'' (if \<not> suffix ''.git'' w then w @ ''.git'' else w)
    \<and> \<not> prefix ''git@github.com:'' (if \<not> suffix ''.git'' w then w @ ''.git'' else w)
    \<and> (prefix ''https://'' (if \<not> suffix ''.git'' w then w @ ''.git'' else w)
       \<or> prefix ''http://'' (if \<not> suffix ''.git'' w then w @ ''.git'' else w))"
proof -
  from assms obtain r where "w = ''https://'' @ r \<or> w = ''http://'' @ r"
    by (auto elim: prefixE)
  then show ?thesis by auto
qed

lemma normalize_steps:
  assumes "u \<noteq> []"
  shows "normalizeGitHubUrl u =
     (let w = (if prefix ''git://'' u then ''https://'' @ drop 6 u
               else if prefix ''git@github.com:'' u then ''https://github.com/'' @ drop 15 u
               else if prefix ''https://'' u \<or> prefix ''http://'' u then u
               else if prefix ''github.com'' u then ''https://'' @ u
               else u)
      in if \<not> suffix ''.git'' w then w @ ''.git'' else w)"
proof (cases "prefix ''git://'' u")
  case True
  then obtain r where "u = ''git://'' @ r" by (auto elim: prefixE)
  then show ?thesis by (simp add: normalize_defs)
next
  case nogit: False
  show ?thesis
  proof (cases "prefix ''git@github.com:'' u")
    case True
    then obtain r where "u = ''git@github.com:'' @ r" by (auto elim: prefixE)
    then show ?thesis by (simp add: normalize_defs)
  next
    case False
    with nogit assms show ?thesis by (simp add: normalize_defs)
  qed
qed

lemma normalize_shape:
  assumes "u \<noteq> []"
  shows "suffix ''.git'' (normalizeGitHubUrl u)
    \<and> \<not> prefix ''git://'' (normalizeGitHubUrl u)
    \<and> \<not> prefix ''git@github.com:'' (normalizeGitHubUrl u)
    \<and> (prefix ''https://'' (normalizeGitHubUrl u) \<or> prefix ''http://'' (normalizeGitHubUrl u)
        \<or> \<not> prefix ''github.com'' (normalizeGitHubUrl u))"
proof -
  define w where "w = (if prefix ''git://'' u then ''https://'' @ drop 6 u
               else if prefix ''git@github.com:'' u then ''https://github.com/'' @ drop 15 u
               else if prefix ''https://'' u \<or> prefix ''http://'' u then u
               else if prefix ''github.com'' u then ''https://'' @ u
               else u)"
  have n: "normalizeGitHubUrl u = (if \<not> suffix ''.git'' w then w @ ''.git'' else w)"
    using normalize_steps [OF assms] by (simp add: w_def Let_def)
  show ?thesis
  proof (cases "prefix ''https://'' w \<or> prefix ''http://'' w")
    case True
    from ensure_git_protocol [OF True] ensure_git_suffix [of w] show ?thesis
      unfolding n by blast
  next
    case False
    then have wu: "w = u" and a: "\<not> prefix ''git://'' u" and b: "\<not> prefix ''git@github.com:'' u"
      and c: "\<not> prefix ''github.com'' u"
      by (auto simp: w_def split: if_splits)
    from a b c ensure_git_suffix [of w] show ?thesis
      unfolding n wu
      using no_new_prefix_git(1) [of u] no_new_prefix_github [of u] no_new_prefix_ssh [of u]
      by (cases "suffix ''.git'' u") auto
  qed
qed

lemma normalize_examples:
  "normalizeGitHubUrl ''git@github.com:acme/widget.git'' = ''https://github.com/acme/widget.git''"
  "normalizeGitHubUrl ''git://github.com/acme/widget.git'' = ''https://github.com/acme/widget.git''"
  "normalizeGitHubUrl ''github.com/acme/widget'' = ''https://github.com/acme/widget.git''"
  by (simp_all add: normalize_defs suffix_to_prefix)

text \<open>
  C4. Normalising a URL twice gives what normalising it once gives, for every URL; and
  the SSH form, the \<open>git://\<close> form and the bare \<open>github.com\<close> form of the repository
  \<open>acme/widget\<close> are all normalised to \<open>https://github.com/acme/widget.git\<close>.
\<close>

theorem normalizeGitHubUrl_idempotent:
  "normalizeGitHubUrl (normalizeGitHubUrl u) = normalizeGitHubUrl u
   \<and> normalizeGitHubUrl ''git@github.com:acme/widget.git'' = ''https://github.com/acme/widget.git''
   \<and> normalizeGitHubUrl ''git://github.com/acme/widget.git'' = ''https://github.com/acme/widget.git''
   \<and> normalizeGitHubUrl ''github.com/acme/widget'' = ''https://github.com/acme/widget.git''"
proof -
  have "normalizeGitHubUrl (normalizeGitHubUrl u) = normalizeGitHubUrl u"
  proof (cases "u = []")
    case True
    then show ?thesis by (simp add: normalizeGitHubUrl_def)
  next
    case False
    from normalize_shape [OF False] show ?thesis
      by (intro normalize_fixed) auto
  qed
  then show ?thesis by (simp add: normalize_examples)
qed

theorem normalizeGitHubUrl_idempotent_witness:
  "normalizeGitHubUrl (normalizeGitHubUrl ''git@github.com:acme/widget.git'')
     = normalizeGitHubUrl ''git@github.com:acme/widget.git''"
  using normalizeGitHubUrl_idempotent [of "''git@github.com:acme/widget.git''"]
  by (rule conjunct1)

subsection \<open>The protocol and the extension of a normalised URL\<close>

text \<open>
  C5, as amended. The protocol is added to a bare path only when the path starts with
  \<open>github.com\<close>: for every URL that starts with \<open>github.com\<close> the normalised URL
  starts with \<open>https://\<close>, while a non-empty URL with none of the beginnings the function
  knows (\<open>git://\<close>, \<open>git@github.com:\<close>, \<open>https://\<close>, \<open>http://\<close>, \<open>github.com\<close>) is
  returned as it is, but for the extension. For every non-empty URL the normalised URL
  ends with \<open>.git\<close>.
\<close>

theorem normalizeGitHubUrl_protocol_and_suffix:
  "(startsWith u ''github.com'' \<longrightarrow> startsWith (normalizeGitHubUrl u) ''https://'')
   \<and> (u \<noteq> [] \<and> \<not> startsWith u ''git://'' \<and> \<not> startsWith u ''git@github.com:''
        \<and> \<not> startsWith u ''https://'' \<and> \<not> startsWith u ''http://''
        \<and> \<not> startsWith u ''github.com'' \<longrightarrow>
        normalizeGitHubUrl u = (if endsWith u ''.git'' then u else u @ ''.git''))
   \<and> (u \<noteq> [] \<longrightarrow> endsWith (normalizeGitHubUrl u) ''.git'')"
proof (intro conjI impI)
  assume "startsWith u ''github.com''"
  then obtain r where u: "u = ''github.com'' @ r" by (auto simp: startsWith_def elim: prefixE)
  then have "u \<noteq> []" by simp
  from normalize_steps [OF this] show "startsWith (normalizeGitHubUrl u) ''https://''"
    by (simp add: u startsWith_def Let_def)
next
  assume "u \<noteq> [] \<and> \<not> startsWith u ''git://'' \<and> \<not> startsWith u ''git@github.com:''
        \<and> \<not> startsWith u ''https://'' \<and> \<not> startsWith u ''http://''
        \<and> \<not> startsWith u ''github.com''"
  then show "normalizeGitHubUrl u = (if endsWith u ''.git'' then u else u @ ''.git'')"
    using normalize_steps [of u] by (simp add: startsWith_def endsWith_def Let_def)
next
  assume "u \<noteq> []"
  from normalize_shape [OF this] show "endsWith (normalizeGitHubUrl u) ''.git''"
    by (simp add: endsWith_def)
qed

theorem normalizeGitHubUrl_protocol_and_suffix_witness:
  "startsWith ''github.com/acme/widget'' ''github.com''
   \<and> startsWith (normalizeGitHubUrl ''github.com/acme/widget'') ''https://''
   \<and> endsWith (normalizeGitHubUrl ''github.com/acme/widget'') ''.git''
   \<and> normalizeGitHubUrl ''example.org/acme/widget'' = ''example.org/acme/widget.git''"
  using normalizeGitHubUrl_protocol_and_suffix [of "''github.com/acme/widget''"]
    normalizeGitHubUrl_protocol_and_suffix [of "''example.org/acme/widget''"]
  by (simp add: startsWith_def endsWith_def suffix_to_prefix)

text \<open>
  The claim as stated fails for a bare path on another host: \<open>gitlab.com/acme/widget\<close>
  has no protocol, and its normalised URL has none either.
\<close>

theorem normalizeGitHubUrl_other_host_counterexample:
  "\<not> startsWith ''gitlab.com/acme/widget'' ''https://''
   \<and> \<not> startsWith ''gitlab.com/acme/widget'' ''http://''
   \<and> normalizeGitHubUrl ''gitlab.com/acme/widget'' = ''gitlab.com/acme/widget.git''
   \<and> \<not> startsWith (normalizeGitHubUrl ''gitlab.com/acme/widget'') ''https://''
   \<and> \<not> startsWith (normalizeGitHubUrl ''gitlab.com/acme/widget'') ''http://''"
  by (simp add: normalize_defs suffix_to_prefix)

subsection \<open>The name of the repository\<close>

lemma github_match_here_needs_g:
  "CHR ''g'' \<notin> set s \<Longrightarrow> github_match_here s = None"
  using set_mono_prefix [of "''github.com''" s] by (auto simp: github_match_here_def)

lemma github_match_slashes:
  "set s \<subseteq> {CHR ''/''} \<Longrightarrow> github_match s = None"
proof (induction s)
  case Nil
  then show ?case by (simp add: github_match_here_def)
next
  case (Cons c s)
  then have "CHR ''g'' \<notin> set (c # s)" by auto
  from github_match_here_needs_g [OF this] Cons show ?case by simp
qed

lemma split_slashes:
  "set s \<subseteq> {CHR ''/''} \<Longrightarrow> filter (\<lambda>x. length x > 0) (str_split CHR ''/'' s) = []"
  by (induction s) auto

lemma extractRepoName_no_segment:
  assumes "set (clean_url url) \<subseteq> {CHR ''/''}"
  shows "extractRepoName url = ''unknown-repository''"
  using github_match_slashes [OF assms] split_slashes [OF assms]
  by (simp add: extractRepoName_def Let_def)

lemma clean_examples:
  "clean_url ''https://github.com/acme/widget.git'' = ''github.com/acme/widget''"
  "clean_url ''https://github.com/vercel/next.js.git'' = ''github.com/vercel/next.js''"
  "clean_url ''https://gitlab.com/vercel/next.js.git'' = ''gitlab.com/vercel/next.js''"
  "clean_url ''https://'' = []"
  by (simp_all add: clean_url_def replace_suffix_def replace_prefix_def remove_protocol_def
      suffix_to_prefix)

lemma extractRepoName_widget:
  "extractRepoName ''https://github.com/acme/widget.git'' = ''widget''"
  by (simp add: extractRepoName_def clean_examples github_match_here_def word_or_hyphen_def
      Let_def)

lemma extractRepoName_dotted:
  "extractRepoName ''https://github.com/vercel/next.js.git'' = ''next''"
  by (simp add: extractRepoName_def clean_examples github_match_here_def word_or_hyphen_def
      Let_def)

lemma extractRepoName_other_host:
  "extractRepoName ''https://gitlab.com/vercel/next.js.git'' = ''next.js''"
  by (simp add: extractRepoName_def clean_examples github_match_here_def word_or_hyphen_def
      Let_def)

lemma slash_not_word: "\<not> word_or_hyphen CHR ''/''"
  by (simp add: word_or_hyphen_def)

lemma github_match_here_project:
  assumes "owner \<noteq> []" "\<forall>c\<in>set owner. word_or_hyphen c"
    and "project \<noteq> []" "\<forall>c\<in>set project. word_or_hyphen c"
    and "sep = CHR '':'' \<or> sep = CHR ''/''"
  shows "github_match_here (''github.com'' @ [sep] @ owner @ ''/'' @ project) = Some project"
proof -
  have t: "takeWhile word_or_hyphen (owner @ CHR ''/'' # project) = owner"
    using assms(2) by (simp add: slash_not_word)
  have d: "dropWhile word_or_hyphen (owner @ CHR ''/'' # project) = CHR ''/'' # project"
    using assms(2) by (simp add: slash_not_word)
  have p: "takeWhile word_or_hyphen project = project"
    using assms(4) by simp
  have "github_match_here (''github.com'' @ [sep] @ owner @ ''/'' @ project) =
      (let name = takeWhile word_or_hyphen project in if name = [] then None else Some name)"
    using assms(1,5) unfolding github_match_here_def Let_def
    by (auto simp: t d simp del: takeWhile_eq_all_conv)
  then show ?thesis
    unfolding p Let_def using assms(3) by simp
qed

lemma replace_suffix_append: "replace_suffix p [] (xs @ p) = xs"
  by (simp add: replace_suffix_def suffix_append)

lemma clean_url_github:
  assumes "pre \<in> {''https://'', ''http://'', ''git://'', ''ssh://'', ''git@'', []}"
  shows "clean_url (pre @ ''github.com'' @ rest @ ''.git'') = ''github.com'' @ rest"
proof -
  have "clean_url ((pre @ ''github.com'' @ rest) @ ''.git'')
      = replace_prefix ''git@'' [] (remove_protocol (pre @ ''github.com'' @ rest))"
    unfolding clean_url_def replace_suffix_append ..
  also have "\<dots> = ''github.com'' @ rest"
    using assms by (auto simp: remove_protocol_def replace_prefix_def)
  finally show ?thesis by simp
qed

lemma extractRepoName_github:
  assumes "owner \<noteq> []" "\<forall>c\<in>set owner. word_or_hyphen c"
    and "project \<noteq> []" "\<forall>c\<in>set project. word_or_hyphen c"
    and "sep = CHR '':'' \<or> sep = CHR ''/''"
    and "pre \<in> {''https://'', ''http://'', ''git://'', ''ssh://'', ''git@'', []}"
  shows "extractRepoName (pre @ ''github.com'' @ [sep] @ owner @ ''/'' @ project @ ''.git'')
     = project"
proof -
  have c: "clean_url (pre @ ''github.com'' @ ([sep] @ owner @ ''/'' @ project) @ ''.git'')
      = ''github.com'' @ [sep] @ owner @ ''/'' @ project"
    using clean_url_github [OF assms(6), of "[sep] @ owner @ ''/'' @ project"] by simp
  have m: "github_match (''github.com'' @ [sep] @ owner @ ''/'' @ project) = Some project"
    using github_match_here_project [OF assms(1-5)] by simp
  have "pre @ ''github.com'' @ [sep] @ owner @ ''/'' @ project @ ''.git'' \<noteq> []" by simp
  with c m show ?thesis
    unfolding extractRepoName_def Let_def by simp
qed

lemma extractRepoName_host_only:
  "extractRepoName ''https://github.com'' = ''github.com''"
  by (simp add: extractRepoName_def clean_url_def replace_suffix_def replace_prefix_def
      remove_protocol_def suffix_to_prefix github_match_here_def Let_def)

text \<open>
  C6. The example of the specification holds: the name of
  \<open>https://github.com/acme/widget.git\<close> is \<open>widget\<close> (\<open>extractRepoName_widget\<close>). A
  URL of which nothing but slashes is left after the extension, the protocol and the
  user prefix are removed is named \<open>unknown-repository\<close> (\<open>extractRepoName_no_segment\<close>);
  a URL of a host alone is named after the host (\<open>extractRepoName_host_only\<close>). A
  GitHub URL whose owner and project consist of letters, digits, underscores and
  hyphens is named after its project (\<open>extractRepoName_github\<close>).
  The name is not always the path segment of the project: the pattern for GitHub URLs
  reads letters, digits, underscores and hyphens only, so the project \<open>next.js\<close> of
  \<open>vercel\<close> on \<open>github.com\<close> is named \<open>next\<close>, while the fallback for other hosts
  names the same path \<open>next.js\<close>.
\<close>

theorem extractRepoName_dotted_project:
  "extractRepoName ''https://github.com/vercel/next.js.git'' = ''next''
   \<and> extractRepoName ''https://gitlab.com/vercel/next.js.git'' = ''next.js''"
  by (simp add: extractRepoName_dotted extractRepoName_other_host)

subsection \<open>Names of violation types\<close>

lemma ascii_upper_lower: "ascii_upper (ascii_lower u) = ascii_upper u"
  unfolding ascii_upper_def ascii_lower_def by (cases "65 \<le> u \<and> u \<le> 90") auto

lemma ascii_lower_upper: "ascii_lower (ascii_upper u) = ascii_lower u"
  unfolding ascii_upper_def ascii_lower_def by (cases "97 \<le> u \<and> u \<le> 122") auto

lemma ascii_same_case:
  "map ascii_upper x = map ascii_upper y \<longleftrightarrow> map ascii_lower x = map ascii_lower y"
proof
  assume "map ascii_upper x = map ascii_upper y"
  then have "map ascii_lower (map ascii_upper x) = map ascii_lower (map ascii_upper y)"
    by (rule arg_cong)
  then show "map ascii_lower x = map ascii_lower y"
    by (simp add: ascii_lower_upper comp_def)
next
  assume "map ascii_lower x = map ascii_lower y"
  then have "map ascii_upper (map ascii_lower x) = map ascii_upper (map ascii_lower y)"
    by (rule arg_cong)
  then show "map ascii_upper x = map ascii_upper y"
    by (simp add: ascii_upper_lower comp_def)
qed

lemma is_ascii_parts: "is_ascii s \<Longrightarrow> is_ascii (take n s) \<and> is_ascii (drop n s)"
  by (auto simp: is_ascii_def list_all_iff dest: in_set_takeD in_set_dropD)

lemma excerpt_upper_ascii: "is_ascii s \<Longrightarrow> toUpperCase_excerpt s = map ascii_upper s"
  by (induction s) (simp_all add: toUpperCase_excerpt_def upper_excerpt_def is_ascii_def)

lemma excerpt_lower_ascii: "is_ascii s \<Longrightarrow> toLowerCase_excerpt s = map ascii_lower s"
  by (induction s) (simp_all add: toLowerCase_excerpt_def lower_excerpt_def is_ascii_def)

lemma is_ascii_utf16:
  "is_ascii (utf16 ''sast'')" "is_ascii (utf16 ''SAST'')" "is_ascii (utf16 ''Agentic_Sast'')"
  "is_ascii (utf16 ''secret'')" "is_ascii (utf16 ''secrets'')" "is_ascii (utf16 ''foo'')"
  by (simp_all add: is_ascii_def utf16_def)

lemma upper_examples:
  "map ascii_upper (utf16 ''sast'') = utf16 ''SAST''"
  "map ascii_upper (utf16 ''SAST'') = utf16 ''SAST''"
  "map ascii_upper (utf16 ''Agentic_Sast'') = utf16 ''AGENTIC_SAST''"
  "map ascii_upper (utf16 ''secret'') = utf16 ''SECRET''"
  "map ascii_upper (utf16 ''secrets'') = utf16 ''SECRETS''"
  "map ascii_upper (utf16 ''foo'') = utf16 ''FOO''"
  "map ascii_upper (take 1 (utf16 ''foo'')) = utf16 ''F''"
  "map ascii_lower (drop 1 (utf16 ''foo'')) = utf16 ''oo''"
  by (simp_all add: ascii_upper_def ascii_lower_def utf16_def)

lemma key_examples:
  "utf16 ''SAST'' \<noteq> utf16 ''SCA''" "utf16 ''AGENTIC_SAST'' \<noteq> utf16 ''SCA''"
  "utf16 ''SECRET'' \<noteq> utf16 ''SCA''" "utf16 ''SECRET'' \<noteq> utf16 ''SAST''"
  "utf16 ''SECRET'' \<noteq> utf16 ''AGENTIC_SAST''"
  "utf16 ''SECRETS'' \<noteq> utf16 ''SCA''" "utf16 ''SECRETS'' \<noteq> utf16 ''SAST''"
  "utf16 ''SECRETS'' \<noteq> utf16 ''AGENTIC_SAST''"
  "utf16 ''IAC'' \<noteq> utf16 ''SCA''" "utf16 ''IAC'' \<noteq> utf16 ''SAST''"
  "utf16 ''IAC'' \<noteq> utf16 ''AGENTIC_SAST''" "utf16 ''IAC'' \<noteq> utf16 ''SECRET''"
  "utf16 ''IAC'' \<noteq> utf16 ''SECRETS''"
  "utf16 ''SBOM'' \<noteq> utf16 ''SCA''" "utf16 ''SBOM'' \<noteq> utf16 ''SAST''"
  "utf16 ''SBOM'' \<noteq> utf16 ''AGENTIC_SAST''" "utf16 ''SBOM'' \<noteq> utf16 ''SECRET''"
  "utf16 ''SBOM'' \<noteq> utf16 ''SECRETS''" "utf16 ''SBOM'' \<noteq> utf16 ''IAC''"
  "utf16 ''FOO'' \<noteq> utf16 ''SCA''" "utf16 ''FOO'' \<noteq> utf16 ''SAST''"
  "utf16 ''FOO'' \<noteq> utf16 ''AGENTIC_SAST''" "utf16 ''FOO'' \<noteq> utf16 ''SECRET''"
  "utf16 ''FOO'' \<noteq> utf16 ''SECRETS''" "utf16 ''FOO'' \<noteq> utf16 ''IAC''"
  "utf16 ''FOO'' \<noteq> utf16 ''SBOM''"
  by (simp_all add: utf16_def)

lemma friendly_name_buckets:
  "toUpper t = utf16 ''SCA'' \<Longrightarrow>
      getViolationTypeFriendlyName toUpper toLower t = package_sign @ utf16 '' Dependencies''"
  "toUpper t = utf16 ''SAST'' \<or> toUpper t = utf16 ''AGENTIC_SAST'' \<Longrightarrow>
      getViolationTypeFriendlyName toUpper toLower t = lock_sign @ utf16 '' Security Issues''"
  "toUpper t = utf16 ''SECRET'' \<or> toUpper t = utf16 ''SECRETS'' \<Longrightarrow>
      getViolationTypeFriendlyName toUpper toLower t = key_sign @ utf16 '' Secrets''"
  "toUpper t = utf16 ''IAC'' \<Longrightarrow>
      getViolationTypeFriendlyName toUpper toLower t = cloud_sign @ utf16 '' Infrastructure''"
  "toUpper t = utf16 ''SBOM'' \<Longrightarrow>
      getViolationTypeFriendlyName toUpper toLower t
        = clipboard_sign @ utf16 '' Software Bill of Materials''"
  "toUpper t \<notin> set [utf16 ''SCA'', utf16 ''SAST'', utf16 ''AGENTIC_SAST'', utf16 ''SECRET'',
                     utf16 ''SECRETS'', utf16 ''IAC'', utf16 ''SBOM''] \<Longrightarrow>
      getViolationTypeFriendlyName toUpper toLower t = toUpper (take 1 t) @ toLower (drop 1 t)"
  by (auto simp: getViolationTypeFriendlyName_def Let_def key_examples key_examples [symmetric])

lemma friendly_name_ascii_case:
  assumes toUpper: "\<And>s. is_ascii s \<Longrightarrow> toUpper s = map ascii_upper s"
    and toLower: "\<And>s. is_ascii s \<Longrightarrow> toLower s = map ascii_lower s"
    and x: "is_ascii x" and y: "is_ascii y" and eq: "toLower x = toLower y \<or> toUpper x = toUpper y"
  shows "getViolationTypeFriendlyName toUpper toLower x = getViolationTypeFriendlyName toUpper toLower y"
proof -
  from eq toUpper [OF x] toUpper [OF y] toLower [OF x] toLower [OF y]
  have l: "map ascii_lower x = map ascii_lower y" and u: "toUpper x = toUpper y"
    using ascii_same_case [of x y] by auto
  from l have "map ascii_lower (drop 1 x) = map ascii_lower (drop 1 y)"
    by (simp only: drop_map [symmetric])
  with is_ascii_parts [OF x, of 1] is_ascii_parts [OF y, of 1]
  have b: "toLower (drop 1 x) = toLower (drop 1 y)" by (simp add: toLower)
  from u toUpper [OF x] toUpper [OF y] have "map ascii_upper (take 1 x) = map ascii_upper (take 1 y)"
    by (simp only: take_map [symmetric])
  with is_ascii_parts [OF x, of 1] is_ascii_parts [OF y, of 1]
  have a: "toUpper (take 1 x) = toUpper (take 1 y)" by (simp add: toUpper)
  show ?thesis
    unfolding getViolationTypeFriendlyName_def u a b ..
qed

text \<open>
  C7, as amended. Let \<open>toUpperCase\<close> and \<open>toLowerCase\<close> be any functions that do on
  strings of ASCII characters what Unicode says. Two violation types of ASCII characters
  that are equal up to the case of their letters (their \<open>toLowerCase\<close>, or their
  \<open>toUpperCase\<close>, are equal) get the same name; \<open>sast\<close>, \<open>SAST\<close> and \<open>Agentic_Sast\<close> are
  security issues, \<open>secret\<close> and \<open>secrets\<close> are secrets, and \<open>foo\<close> is named \<open>Foo\<close>. For
  every type, of ASCII characters or not, the name is the one of the bucket whose key
  its \<open>toUpperCase\<close> is, and for a type of no bucket it is the \<open>toUpperCase\<close> of its first
  code unit followed by the \<open>toLowerCase\<close> of the rest: for a type of ASCII characters,
  its first letter as a capital and its other letters as small letters.
\<close>

theorem getViolationTypeFriendlyName_ascii_case_insensitive:
  assumes toUpper: "\<And>s. is_ascii s \<Longrightarrow> toUpper s = map ascii_upper s"
    and toLower: "\<And>s. is_ascii s \<Longrightarrow> toLower s = map ascii_lower s"
  shows
  "(is_ascii x \<and> is_ascii y \<and> (toLower x = toLower y \<or> toUpper x = toUpper y) \<longrightarrow>
      getViolationTypeFriendlyName toUpper toLower x = getViolationTypeFriendlyName toUpper toLower y)
   \<and> getViolationTypeFriendlyName toUpper toLower (utf16 ''sast'') = lock_sign @ utf16 '' Security Issues''
   \<and> getViolationTypeFriendlyName toUpper toLower (utf16 ''SAST'') = lock_sign @ utf16 '' Security Issues''
   \<and> getViolationTypeFriendlyName toUpper toLower (utf16 ''Agentic_Sast'')
       = lock_sign @ utf16 '' Security Issues''
   \<and> getViolationTypeFriendlyName toUpper toLower (utf16 ''secret'') = key_sign @ utf16 '' Secrets''
   \<and> getViolationTypeFriendlyName toUpper toLower (utf16 ''secrets'') = key_sign @ utf16 '' Secrets''
   \<and> getViolationTypeFriendlyName toUpper toLower (utf16 ''foo'') = utf16 ''Foo''
   \<and> (toUpper t = utf16 ''SCA'' \<longrightarrow>
      getViolationTypeFriendlyName toUpper toLower t = package_sign @ utf16 '' Dependencies'')
   \<and> (toUpper t = utf16 ''SAST'' \<or> toUpper t = utf16 ''AGENTIC_SAST'' \<longrightarrow>
      getViolationTypeFriendlyName toUpper toLower t = lock_sign @ utf16 '' Security Issues'')
   \<and> (toUpper t = utf16 ''SECRET'' \<or> toUpper t = utf16 ''SECRETS'' \<longrightarrow>
      getViolationTypeFriendlyName toUpper toLower t = key_sign @ utf16 '' Secrets'')
   \<and> (toUpper t = utf16 ''IAC'' \<longrightarrow>
      getViolationTypeFriendlyName toUpper toLower t = cloud_sign @ utf16 '' Infrastructure'')
   \<and> (toUpper t = utf16 ''SBOM'' \<longrightarrow>
      getViolationTypeFriendlyName toUpper toLower t
        = clipboard_sign @ utf16 '' Software Bill of Materials'')
   \<and> (toUpper t \<notin> set [utf16 ''SCA'', utf16 ''SAST'', utf16 ''AGENTIC_SAST'', utf16 ''SECRET'',
                     utf16 ''SECRETS'', utf16 ''IAC'', utf16 ''SBOM''] \<longrightarrow>
      getViolationTypeFriendlyName toUpper toLower t = toUpper (take 1 t) @ toLower (drop 1 t))
   \<and> (is_ascii t
      \<and> toUpper t \<notin> set [utf16 ''SCA'', utf16 ''SAST'', utf16 ''AGENTIC_SAST'', utf16 ''SECRET'',
                     utf16 ''SECRETS'', utf16 ''IAC'', utf16 ''SBOM''] \<longrightarrow>
      getViolationTypeFriendlyName toUpper toLower t
        = map ascii_upper (take 1 t) @ map ascii_lower (drop 1 t))"
proof -
  note b = friendly_name_buckets [of toUpper _ toLower]
  have ex: "toUpper (utf16 ''sast'') = utf16 ''SAST''" "toUpper (utf16 ''SAST'') = utf16 ''SAST''"
    "toUpper (utf16 ''Agentic_Sast'') = utf16 ''AGENTIC_SAST''"
    "toUpper (utf16 ''secret'') = utf16 ''SECRET''" "toUpper (utf16 ''secrets'') = utf16 ''SECRETS''"
    "toUpper (utf16 ''foo'') = utf16 ''FOO''"
    by (simp_all add: toUpper is_ascii_utf16 upper_examples)
  have foo: "toUpper (take 1 (utf16 ''foo'')) @ toLower (drop 1 (utf16 ''foo'')) = utf16 ''Foo''"
    by (simp add: toUpper toLower utf16_def is_ascii_def ascii_upper_def ascii_lower_def)
  have c1: "is_ascii x \<and> is_ascii y \<and> (toLower x = toLower y \<or> toUpper x = toUpper y) \<longrightarrow>
      getViolationTypeFriendlyName toUpper toLower x = getViolationTypeFriendlyName toUpper toLower y"
    using friendly_name_ascii_case [OF toUpper toLower, of x y] by blast
  have c2: "getViolationTypeFriendlyName toUpper toLower (utf16 ''sast'') = lock_sign @ utf16 '' Security Issues''"
    "getViolationTypeFriendlyName toUpper toLower (utf16 ''SAST'') = lock_sign @ utf16 '' Security Issues''"
    "getViolationTypeFriendlyName toUpper toLower (utf16 ''Agentic_Sast'') = lock_sign @ utf16 '' Security Issues''"
    by (rule b(2), simp only: ex, simp)+
  have c3: "getViolationTypeFriendlyName toUpper toLower (utf16 ''secret'') = key_sign @ utf16 '' Secrets''"
    "getViolationTypeFriendlyName toUpper toLower (utf16 ''secrets'') = key_sign @ utf16 '' Secrets''"
    by (rule b(3), simp only: ex, simp)+
  have "toUpper (utf16 ''foo'') \<notin> set [utf16 ''SCA'', utf16 ''SAST'', utf16 ''AGENTIC_SAST'',
      utf16 ''SECRET'', utf16 ''SECRETS'', utf16 ''IAC'', utf16 ''SBOM'']"
    by (simp add: ex key_examples)
  from b(6) [OF this] have c4: "getViolationTypeFriendlyName toUpper toLower (utf16 ''foo'') = utf16 ''Foo''"
    by (simp only: foo)
  have c5: "is_ascii t
      \<and> toUpper t \<notin> set [utf16 ''SCA'', utf16 ''SAST'', utf16 ''AGENTIC_SAST'', utf16 ''SECRET'',
                     utf16 ''SECRETS'', utf16 ''IAC'', utf16 ''SBOM''] \<longrightarrow>
      getViolationTypeFriendlyName toUpper toLower t
        = map ascii_upper (take 1 t) @ map ascii_lower (drop 1 t)"
  proof (intro impI, elim conjE)
    assume t: "is_ascii t"
      and n: "toUpper t \<notin> set [utf16 ''SCA'', utf16 ''SAST'', utf16 ''AGENTIC_SAST'',
        utf16 ''SECRET'', utf16 ''SECRETS'', utf16 ''IAC'', utf16 ''SBOM'']"
    from is_ascii_parts [OF t, of 1]
    have "toUpper (take 1 t) = map ascii_upper (take 1 t)"
      and "toLower (drop 1 t) = map ascii_lower (drop 1 t)"
      by (simp_all only: toUpper toLower)
    with b(6) [OF n] show "getViolationTypeFriendlyName toUpper toLower t
        = map ascii_upper (take 1 t) @ map ascii_lower (drop 1 t)"
      by (simp only:)
  qed
  show ?thesis
    by (intro conjI c1 c2 c3 c4 c5 impI; erule b)
qed

theorem getViolationTypeFriendlyName_ascii_case_insensitive_witness:
  "is_ascii (utf16 ''Secrets'') \<and> is_ascii (utf16 ''SECRETS'')
   \<and> toLowerCase_excerpt (utf16 ''Secrets'') = toLowerCase_excerpt (utf16 ''SECRETS'')
   \<and> getViolationTypeFriendlyName toUpperCase_excerpt toLowerCase_excerpt (utf16 ''Secrets'')
     = getViolationTypeFriendlyName toUpperCase_excerpt toLowerCase_excerpt (utf16 ''SECRETS'')
   \<and> getViolationTypeFriendlyName toUpperCase_excerpt toLowerCase_excerpt (utf16 ''sca'')
     = package_sign @ utf16 '' Dependencies''
   \<and> getViolationTypeFriendlyName toUpperCase_excerpt toLowerCase_excerpt (utf16 ''Agentic_Sast'')
     = lock_sign @ utf16 '' Security Issues''
   \<and> getViolationTypeFriendlyName toUpperCase_excerpt toLowerCase_excerpt (utf16 ''Secrets'')
     = key_sign @ utf16 '' Secrets''
   \<and> getViolationTypeFriendlyName toUpperCase_excerpt toLowerCase_excerpt (utf16 ''iac'')
     = cloud_sign @ utf16 '' Infrastructure''
   \<and> getViolationTypeFriendlyName toUpperCase_excerpt toLowerCase_excerpt (utf16 ''sbom'')
     = clipboard_sign @ utf16 '' Software Bill of Materials''
   \<and> getViolationTypeFriendlyName toUpperCase_excerpt toLowerCase_excerpt (utf16 ''lICENSE'')
     = utf16 ''License''"
proof -
  note evals = utf16_def is_ascii_def toUpperCase_excerpt_def toLowerCase_excerpt_def
    upper_excerpt_def lower_excerpt_def ascii_upper_def ascii_lower_def
  have a: "is_ascii (utf16 ''Secrets'')" "is_ascii (utf16 ''SECRETS'')"
    "is_ascii (utf16 ''lICENSE'')"
    by (simp_all add: utf16_def is_ascii_def)
  have l: "toLowerCase_excerpt (utf16 ''Secrets'') = toLowerCase_excerpt (utf16 ''SECRETS'')"
    by (simp add: evals)
  have u: "toUpperCase_excerpt (utf16 ''sca'') = utf16 ''SCA''"
    "toUpperCase_excerpt (utf16 ''Agentic_Sast'') = utf16 ''AGENTIC_SAST''"
    "toUpperCase_excerpt (utf16 ''Secrets'') = utf16 ''SECRETS''"
    "toUpperCase_excerpt (utf16 ''iac'') = utf16 ''IAC''"
    "toUpperCase_excerpt (utf16 ''sbom'') = utf16 ''SBOM''"
    by (simp_all add: evals)
  have n: "toUpperCase_excerpt (utf16 ''lICENSE'')
      \<notin> set [utf16 ''SCA'', utf16 ''SAST'', utf16 ''AGENTIC_SAST'', utf16 ''SECRET'',
               utf16 ''SECRETS'', utf16 ''IAC'', utf16 ''SBOM'']"
    by (simp add: evals)
  have t: "map ascii_upper (take 1 (utf16 ''lICENSE'')) @ map ascii_lower (drop 1 (utf16 ''lICENSE''))
      = utf16 ''License''"
    by (simp add: utf16_def ascii_upper_def ascii_lower_def)
  note th = getViolationTypeFriendlyName_ascii_case_insensitive
      [OF excerpt_upper_ascii excerpt_lower_ascii,
       where x = "utf16 ''Secrets''" and y = "utf16 ''SECRETS''"]
  from a l th [where t = "utf16 ''sca''"] u(1)
  have 1: "getViolationTypeFriendlyName toUpperCase_excerpt toLowerCase_excerpt (utf16 ''Secrets'')
     = getViolationTypeFriendlyName toUpperCase_excerpt toLowerCase_excerpt (utf16 ''SECRETS'')"
    and 2: "getViolationTypeFriendlyName toUpperCase_excerpt toLowerCase_excerpt (utf16 ''sca'')
     = package_sign @ utf16 '' Dependencies''"
    by blast+
  from th [where t = "utf16 ''Agentic_Sast''"] u(2)
  have 3: "getViolationTypeFriendlyName toUpperCase_excerpt toLowerCase_excerpt (utf16 ''Agentic_Sast'')
     = lock_sign @ utf16 '' Security Issues''"
    by blast
  from th [where t = "utf16 ''Secrets''"] u(3)
  have 4: "getViolationTypeFriendlyName toUpperCase_excerpt toLowerCase_excerpt (utf16 ''Secrets'')
     = key_sign @ utf16 '' Secrets''"
    by blast
  from th [where t = "utf16 ''iac''"] u(4)
  have 5: "getViolationTypeFriendlyName toUpperCase_excerpt toLowerCase_excerpt (utf16 ''iac'')
     = cloud_sign @ utf16 '' Infrastructure''"
    by blast
  from th [where t = "utf16 ''sbom''"] u(5)
  have 6: "getViolationTypeFriendlyName toUpperCase_excerpt toLowerCase_excerpt (utf16 ''sbom'')
     = clipboard_sign @ utf16 '' Software Bill of Materials''"
    by blast
  from th [where t = "utf16 ''lICENSE''"] a(3) n
  have "getViolationTypeFriendlyName toUpperCase_excerpt toLowerCase_excerpt (utf16 ''lICENSE'')
     = map ascii_upper (take 1 (utf16 ''lICENSE'')) @ map ascii_lower (drop 1 (utf16 ''lICENSE''))"
    by blast
  with t
  have 7: "getViolationTypeFriendlyName toUpperCase_excerpt toLowerCase_excerpt (utf16 ''lICENSE'')
     = utf16 ''License''"
    by (rule back_subst [where P = "\<lambda>z. _ = z", rotated])
  from a l 1 2 3 4 5 6 7 show ?thesis by blast
qed

text \<open>
  The claim as stated fails outside ASCII. The Kelvin sign followed by \<open>foo\<close> and the
  type \<open>kfoo\<close> have the same \<open>toLowerCase\<close>, \<open>kfoo\<close>, so they are equal up to the case
  of their letters; the first is named as it is written, since the Kelvin sign is a
  capital letter already, and the second is named \<open>Kfoo\<close>.
\<close>

theorem getViolationTypeFriendlyName_kelvin_counterexample:
  "toLowerCase_excerpt (0x212A # utf16 ''foo'') = utf16 ''kfoo''
   \<and> toLowerCase_excerpt (utf16 ''kfoo'') = utf16 ''kfoo''
   \<and> getViolationTypeFriendlyName toUpperCase_excerpt toLowerCase_excerpt (0x212A # utf16 ''foo'')
     = 0x212A # utf16 ''foo''
   \<and> getViolationTypeFriendlyName toUpperCase_excerpt toLowerCase_excerpt (utf16 ''kfoo'')
     = utf16 ''Kfoo''
   \<and> getViolationTypeFriendlyName toUpperCase_excerpt toLowerCase_excerpt (0x212A # utf16 ''foo'')
     \<noteq> getViolationTypeFriendlyName toUpperCase_excerpt toLowerCase_excerpt (utf16 ''kfoo'')"
  by (simp add: getViolationTypeFriendlyName_def Let_def utf16_def toUpperCase_excerpt_def
      toLowerCase_excerpt_def upper_excerpt_def lower_excerpt_def ascii_upper_def
      ascii_lower_def)

text \<open>
  Two more types outside ASCII. The sharp s followed by \<open>a\<close> and the type \<open>ssa\<close> have the
  same \<open>toUpperCase\<close>, \<open>SSA\<close>, and are named \<open>SSa\<close> and \<open>Ssa\<close>. The dotless i followed by
  \<open>ac\<close> is in the bucket of \<open>IAC\<close>.
\<close>

lemma friendly_name_sharp_s:
  "toUpperCase_excerpt (0xDF # utf16 ''a'') = toUpperCase_excerpt (utf16 ''ssa'')
   \<and> getViolationTypeFriendlyName toUpperCase_excerpt toLowerCase_excerpt (0xDF # utf16 ''a'')
     = utf16 ''SSa''
   \<and> getViolationTypeFriendlyName toUpperCase_excerpt toLowerCase_excerpt (utf16 ''ssa'')
     = utf16 ''Ssa''"
  by (simp add: getViolationTypeFriendlyName_def Let_def utf16_def toUpperCase_excerpt_def
      toLowerCase_excerpt_def upper_excerpt_def lower_excerpt_def ascii_upper_def
      ascii_lower_def)

lemma friendly_name_dotless_i:
  "getViolationTypeFriendlyName toUpperCase_excerpt toLowerCase_excerpt (0x131 # utf16 ''ac'')
     = cloud_sign @ utf16 '' Infrastructure''"
  by (simp add: getViolationTypeFriendlyName_def Let_def utf16_def toUpperCase_excerpt_def
      toLowerCase_excerpt_def upper_excerpt_def lower_excerpt_def ascii_upper_def
      ascii_lower_def)

subsection \<open>The numeric inputs\<close>

lemma digit_cases:
  assumes "d < (10::nat)"
  obtains "d = 0" | "d = 1" | "d = 2" | "d = 3" | "d = 4" | "d = 5" | "d = 6" | "d = 7"
    | "d = 8" | "d = 9"
proof -
  from assms have "d = 0 \<or> d = 1 \<or> d = 2 \<or> d = 3 \<or> d = 4 \<or> d = 5 \<or> d = 6 \<or> d = 7
    \<or> d = 8 \<or> d = 9" by arith
  then show ?thesis using that by blast
qed

lemma decimal_digit:
  assumes "d < 10"
  shows "digitValue (''0123456789'' ! d) = Some d"
    and "''0123456789'' ! d \<in> set ''0123456789''"
  using assms by (cases d rule: digit_cases; simp add: digitValue_def)+

lemma decimal_char_props:
  assumes "c \<in> set ''0123456789''"
  shows "isDigit 10 c" "\<not> isWhiteSpace c" "c \<noteq> CHR ''-''" "c \<noteq> CHR ''+''"
    "c \<noteq> CHR ''x''" "c \<noteq> CHR ''X''"
proof -
  from assms have c: "c = CHR ''0'' \<or> c = CHR ''1'' \<or> c = CHR ''2'' \<or> c = CHR ''3''
    \<or> c = CHR ''4'' \<or> c = CHR ''5'' \<or> c = CHR ''6'' \<or> c = CHR ''7'' \<or> c = CHR ''8''
    \<or> c = CHR ''9''" by simp
  from c show "isDigit 10 c" by (elim disjE) (simp_all add: isDigit_def digitValue_def)
  from c show "\<not> isWhiteSpace c" by (elim disjE) (simp_all add: isWhiteSpace_def)
  from c show "c \<noteq> CHR ''-''" by (elim disjE) simp_all
  from c show "c \<noteq> CHR ''+''" by (elim disjE) simp_all
  from c show "c \<noteq> CHR ''x''" by (elim disjE) simp_all
  from c show "c \<noteq> CHR ''X''" by (elim disjE) simp_all
qed

lemma string_of_nat_digits: "set (string_of_nat n) \<subseteq> set ''0123456789''"
proof (induction n rule: string_of_nat.induct)
  case (1 n)
  show ?case
  proof (cases "n < 10")
    case True
    then show ?thesis
      using decimal_digit(2) [of n] by (subst string_of_nat.simps) simp
  next
    case False
    have "n mod 10 < 10" by simp
    from decimal_digit(2) [OF this] 1 False show ?thesis
      by (subst string_of_nat.simps) simp
  qed
qed

lemma string_of_nat_nonempty: "string_of_nat n \<noteq> []"
  by (subst string_of_nat.simps) simp

lemma digitsValue_append:
  "digitsValue r acc (xs @ ys) = digitsValue r (digitsValue r acc xs) ys"
  by (induction xs arbitrary: acc) simp_all

lemma digitsValue_string_of_nat: "digitsValue 10 0 (string_of_nat n) = n"
proof (induction n rule: string_of_nat.induct)
  case (1 n)
  show ?case
  proof (cases "n < 10")
    case True
    then show ?thesis
      using decimal_digit(1) [of n] by (subst string_of_nat.simps) simp
  next
    case False
    have "n mod 10 < 10" by simp
    from decimal_digit(1) [OF this] 1 False show ?thesis
      by (subst string_of_nat.simps) (simp add: digitsValue_append)
  qed
qed

lemma parseInt_digits:
  assumes "s \<noteq> []" "set s \<subseteq> set ''0123456789''"
  shows "parseInt s = Num (int (digitsValue 10 0 s))"
    and "parseInt (CHR ''-'' # s) = Num (- int (digitsValue 10 0 s))"
proof -
  from assms obtain c cs where s: "s = c # cs" by (cases s) auto
  with assms have c: "c \<in> set ''0123456789''" by auto
  have all: "\<forall>x\<in>set s. isDigit 10 x" using assms(2) decimal_char_props(1) by blast
  have tw: "takeWhile P xs = xs" if "\<forall>x\<in>set xs. P x" for P and xs :: string
    using that by simp
  have nohex: "\<not> prefix ''0x'' s" "\<not> prefix ''0X'' s"
  proof -
    have "CHR ''x'' \<notin> set s" "CHR ''X'' \<notin> set s"
      using assms(2) decimal_char_props(5,6) by blast+
    then show "\<not> prefix ''0x'' s" "\<not> prefix ''0X'' s"
      using set_mono_prefix [of "''0x''" s] set_mono_prefix [of "''0X''" s] by auto
  qed
  have ws: "dropWhile isWhiteSpace s = s"
    using decimal_char_props(2) [OF c] by (simp add: s)
  have hd: "hd s \<noteq> CHR ''-''" "hd s \<noteq> CHR ''+''"
    using decimal_char_props(3,4) [OF c] by (simp_all add: s)
  show "parseInt s = Num (int (digitsValue 10 0 s))"
    using assms(1) all nohex ws hd by (simp add: parseInt_def Let_def tw)
  have "\<not> isWhiteSpace CHR ''-''" by (simp add: isWhiteSpace_def)
  then show "parseInt (CHR ''-'' # s) = Num (- int (digitsValue 10 0 s))"
    using assms(1) all nohex by (simp add: parseInt_def Let_def tw)
qed

lemma parseInt_toString: "parseInt (toString i) = Num i"
  using parseInt_digits [OF string_of_nat_nonempty string_of_nat_digits]
  by (simp add: toString_def digitsValue_string_of_nat)

lemma toString_nonempty: "toString i \<noteq> []"
  by (simp add: toString_def string_of_nat_nonempty)


lemma parseInt_defaults:
  "parseInt ''43200'' = Num 43200" "parseInt ''30'' = Num 30" "parseInt ''0'' = Num 0"
  by (simp_all add: parseInt_def Let_def isWhiteSpace_def isDigit_def digitValue_def)

lemma with_input_simps:
  "getInput (with_input w name v) n = (if n = name then v else getInput w n)"
  "context_owner (with_input w name v) = context_owner w"
  "context_repo (with_input w name v) = context_repo w"
  "context_ref (with_input w name v) = context_ref w"
  by (simp_all add: with_input_def)

lemma with_input_other:
  assumes "n \<noteq> name"
  shows "getBooleanInput (with_input w name v) n = getBooleanInput w n"
    and "getInput_required (with_input w name v) n = getInput_required w n"
  using assms by (simp_all add: getBooleanInput_def getInput_required_def with_input_simps)

lemma bind_result_Inr:
  "bind_result m f = Inr y \<longleftrightarrow> (\<exists>x. m = Inr x \<and> f x = Inr y)"
  by (cases m) (simp_all add: bind_result_def)

lemma frame_bind:
  assumes "bind_result m f0 = Inr cfg" and "\<And>x. f0 x = Inr cfg \<Longrightarrow> f1 x = g"
  shows "bind_result m f1 = g"
  using assms by (cases m) (simp_all add: bind_result_def)

lemma frame_if:
  assumes "(if c then Inl e else a0) = Inr cfg" and "a0 = Inr cfg \<Longrightarrow> a1 = g"
  shows "(if c then Inl e else a1) = g"
  using assms by (cases c) simp_all

lemma if_Inr_elim:
  assumes "(if c then Inl e else a) = Inr cfg"
  obtains "\<not> c" and "a = Inr cfg"
  using assms by (cases c) simp_all

lemmas parseInputs_unfold =
  parseInputs_def Logger_constructor_def with_input_other with_input_simps Let_def

lemma timeout_rejected:
  assumes "parseInputs w = Inr cfg"
    and "js_lt (parseInt (or_else v ''43200'')) (Num 60)
         \<or> js_gt (parseInt (or_else v ''43200'')) (Num 86400)"
  shows "parseInputs (with_input w ''timeout'' v) =
        Inl (Error ''Timeout must be between 60 and 86400 seconds (1 minute to 24 hours)'')"
  using assms
  apply (simp add: parseInputs_unfold split del: if_split cong: if_cong)
  apply (erule frame_bind frame_if)+
  apply simp
  done

lemma timeout_accepted:
  assumes "parseInputs w = Inr cfg"
    and "\<not> (js_lt (parseInt (or_else v ''43200'')) (Num 60)
         \<or> js_gt (parseInt (or_else v ''43200'')) (Num 86400))"
  shows "parseInputs (with_input w ''timeout'' v) =
        Inr (cfg\<lparr>timeout := parseInt (or_else v ''43200'')\<rparr>)"
  using assms
  apply (simp add: parseInputs_unfold split del: if_split cong: if_cong)
  apply (erule frame_bind frame_if)+
  apply (erule if_Inr_elim)
  apply (simp split del: if_split cong: if_cong)
  apply (erule frame_bind frame_if)+
  apply clarsimp
  done

lemma poll_rejected:
  assumes "parseInputs w = Inr cfg"
    and "js_lt (parseInt (or_else v ''30'')) (Num 10)
         \<or> js_gt (parseInt (or_else v ''30'')) (Num 60)"
  shows "parseInputs (with_input w ''poll-interval'' v) =
        Inl (Error ''Poll interval must be between 10 and 60 seconds'')"
  using assms
  apply (simp add: parseInputs_unfold split del: if_split cong: if_cong)
  apply (erule frame_bind frame_if)+
  apply simp
  done

lemma poll_accepted:
  assumes "parseInputs w = Inr cfg"
    and "\<not> (js_lt (parseInt (or_else v ''30'')) (Num 10)
         \<or> js_gt (parseInt (or_else v ''30'')) (Num 60))"
  shows "parseInputs (with_input w ''poll-interval'' v) =
        Inr (cfg\<lparr>pollInterval := parseInt (or_else v ''30'')\<rparr>)"
  using assms
  apply (simp add: parseInputs_unfold split del: if_split cong: if_cong)
  apply (erule frame_bind frame_if)+
  apply (erule if_Inr_elim)
  apply (simp split del: if_split cong: if_cong)
  apply (erule frame_bind frame_if)+
  apply clarsimp
  done

lemma max_violations_accepted:
  assumes "parseInputs w = Inr cfg"
  shows "parseInputs (with_input w ''max-violations'' v) =
        Inr (cfg\<lparr>maxViolations := parseInt (or_else v ''0'')\<rparr>)"
  using assms
  apply (simp add: parseInputs_unfold split del: if_split cong: if_cong)
  apply (erule frame_bind frame_if)+
  apply clarsimp
  done

lemma parseInputs_example: "parseInputs example_world = Inr default_inputs"
  by (simp add: parseInputs_def Logger_constructor_def getBooleanInput_def
      getInput_required_def bind_result_def or_else_def validFormats_def js_gt_def Let_def
      example_world_def example_inputs_def parseInt_defaults default_inputs_def)

lemma toString_examples:
  "toString 60 = ''60''" "toString 86400 = ''86400''" "toString 59 = ''59''"
  "toString 86401 = ''86401''" "toString 10 = ''10''" "toString 9 = ''9''"
  "toString 61 = ''61''"
  by (simp_all add: toString_def string_of_nat.simps)

lemma parseInt_abc: "parseInt ''abc'' = NaN"
  by (simp add: parseInt_def Let_def isWhiteSpace_def isDigit_def digitValue_def)

text \<open>
  C2. Take any step whose inputs \<open>parseInputs\<close> accepts. When its timeout is replaced by
  the decimal text of an integer \<open>t\<close>, \<open>parseInputs\<close> raises the timeout error exactly
  when \<open>t < 60\<close> or \<open>t > 86400\<close>, and otherwise returns the same configuration with
  timeout \<open>t\<close>; when its poll interval is replaced by the decimal text of an integer
  \<open>p\<close>, it raises the poll-interval error exactly when \<open>p < 10\<close> or \<open>p > 60\<close>, and
  otherwise returns the same configuration with poll interval \<open>p\<close>. So 60, 86400, 10
  and 60 are accepted and 59, 86401, 9 and 61 are rejected.
\<close>

theorem parseInputs_numeric_ranges:
  assumes "parseInputs w = Inr cfg"
  shows "parseInputs (with_input w ''timeout'' (toString t)) =
           (if t < 60 \<or> 86400 < t then
              Inl (Error ''Timeout must be between 60 and 86400 seconds (1 minute to 24 hours)'')
            else Inr (cfg\<lparr>timeout := Num t\<rparr>))
       \<and> parseInputs (with_input w ''poll-interval'' (toString p)) =
           (if p < 10 \<or> 60 < p then
              Inl (Error ''Poll interval must be between 10 and 60 seconds'')
            else Inr (cfg\<lparr>pollInterval := Num p\<rparr>))"
proof -
  have t: "parseInt (or_else (toString t) ''43200'') = Num t"
    and p: "parseInt (or_else (toString p) ''30'') = Num p"
    by (simp_all add: or_else_def toString_nonempty parseInt_toString)
  show ?thesis
    using timeout_rejected [OF assms, of "toString t"] timeout_accepted [OF assms, of "toString t"]
      poll_rejected [OF assms, of "toString p"] poll_accepted [OF assms, of "toString p"]
    by (simp add: t p js_gt_def)
qed

theorem parseInputs_numeric_ranges_witness:
  "parseInputs (with_input example_world ''timeout'' ''60'')
     = Inr (default_inputs\<lparr>timeout := Num 60\<rparr>)
   \<and> parseInputs (with_input example_world ''timeout'' ''86400'')
     = Inr (default_inputs\<lparr>timeout := Num 86400\<rparr>)
   \<and> parseInputs (with_input example_world ''timeout'' ''59'')
     = Inl (Error ''Timeout must be between 60 and 86400 seconds (1 minute to 24 hours)'')
   \<and> parseInputs (with_input example_world ''timeout'' ''86401'')
     = Inl (Error ''Timeout must be between 60 and 86400 seconds (1 minute to 24 hours)'')
   \<and> parseInputs (with_input example_world ''poll-interval'' ''10'')
     = Inr (default_inputs\<lparr>pollInterval := Num 10\<rparr>)
   \<and> parseInputs (with_input example_world ''poll-interval'' ''60'')
     = Inr (default_inputs\<lparr>pollInterval := Num 60\<rparr>)
   \<and> parseInputs (with_input example_world ''poll-interval'' ''9'')
     = Inl (Error ''Poll interval must be between 10 and 60 seconds'')
   \<and> parseInputs (with_input example_world ''poll-interval'' ''61'')
     = Inl (Error ''Poll interval must be between 10 and 60 seconds'')"
  using parseInputs_numeric_ranges [OF parseInputs_example, of 60 10]
    parseInputs_numeric_ranges [OF parseInputs_example, of 86400 60]
    parseInputs_numeric_ranges [OF parseInputs_example, of 59 9]
    parseInputs_numeric_ranges [OF parseInputs_example, of 86401 61]
  by (simp add: toString_examples)

lemma parseInt_not_numeric:
  assumes "\<not> isWhiteSpace c" "c \<noteq> CHR ''+''" "c \<noteq> CHR ''-''" "\<not> isDigit 10 c"
  shows "parseInt (c # r) = NaN"
proof -
  have "c \<noteq> CHR ''0''" using assms(4) by (auto simp: isDigit_def digitValue_def)
  with assms show ?thesis by (simp add: parseInt_def Let_def)
qed

text \<open>
  C9. Take any step whose inputs \<open>parseInputs\<close> accepts, and a non-empty text \<open>s\<close> for
  which \<open>parseInt\<close> gives \<open>NaN\<close>. \<open>NaN\<close> is neither below the lower bounds nor above
  the upper bounds, and when the timeout, the poll interval or max-violations is replaced
  by \<open>s\<close>, \<open>parseInputs\<close> raises nothing and returns the same configuration with
  \<open>NaN\<close> in that field.
\<close>

theorem parseInputs_accepts_NaN:
  assumes "parseInputs w = Inr cfg" and "s \<noteq> []" and "parseInt s = NaN"
  shows "\<not> js_lt NaN (Num 60) \<and> \<not> js_gt NaN (Num 86400)
       \<and> \<not> js_lt NaN (Num 10) \<and> \<not> js_gt NaN (Num 60)
       \<and> parseInputs (with_input w ''timeout'' s) = Inr (cfg\<lparr>timeout := NaN\<rparr>)
       \<and> parseInputs (with_input w ''poll-interval'' s) = Inr (cfg\<lparr>pollInterval := NaN\<rparr>)
       \<and> parseInputs (with_input w ''max-violations'' s)
           = Inr (cfg\<lparr>maxViolations := NaN\<rparr>)"
  using timeout_accepted [OF assms(1), of s] poll_accepted [OF assms(1), of s]
    max_violations_accepted [OF assms(1), of s] assms(2,3)
  by (simp add: or_else_def js_gt_def)

theorem parseInputs_accepts_NaN_witness:
  "parseInt ''abc'' = NaN
   \<and> parseInputs (with_input example_world ''timeout'' ''abc'')
       = Inr (default_inputs\<lparr>timeout := NaN\<rparr>)
   \<and> parseInputs (with_input example_world ''poll-interval'' ''abc'')
       = Inr (default_inputs\<lparr>pollInterval := NaN\<rparr>)
   \<and> parseInputs (with_input example_world ''max-violations'' ''abc'')
       = Inr (default_inputs\<lparr>maxViolations := NaN\<rparr>)"
  using parseInputs_accepts_NaN [OF parseInputs_example _ parseInt_abc] parseInt_abc
  by simp

subsection \<open>Validation of the findings document\<close>

lemmas io_defs = io_return_def io_throw_def io_emit_def io_lift_def io_call_def io_bind_def
  io_catch_def

lemma validate_object:
  "validateSarifFormat (JObject props) =
     (if \<not> truthy (map_of props ''$schema'') then
        (Inl (Error ''Invalid SARIF: Missing $schema property''), [])
      else if \<not> truthy (map_of props ''version'') then
        (Inl (Error ''Invalid SARIF: Missing version property''), [])
      else case map_of props ''runs'' of
        Some (JArray rs) \<Rightarrow>
          (case total_results rs 0 of Inl e \<Rightarrow> Inl e | Inr n \<Rightarrow> Inr (),
           if rs = [] then [Warning ''SARIF file contains no runs - this may indicate no results were found'']
           else [])
      | _ \<Rightarrow> (Inl (Error ''Invalid SARIF: Missing or invalid runs array''), []))"
  by (auto simp: validateSarifFormat_def get_property_def io_defs
      split: option.splits json.splits sum.splits)

lemma validate_not_object:
  assumes "\<And>props. d \<noteq> JObject props"
  shows "isl (fst (validateSarifFormat d))" "snd (validateSarifFormat d) = []"
  using assms by (cases d; simp add: validateSarifFormat_def get_property_def io_defs)+

lemma validate_rejects:
  assumes "get_property d ''$schema'' = Inr None \<or> get_property d ''version'' = Inr None
    \<or> (\<forall>rs. get_property d ''runs'' \<noteq> Inr (Some (JArray rs)))"
  shows "isl (fst (validateSarifFormat d)) \<and> snd (validateSarifFormat d) = []"
proof (cases d)
  case (JObject props)
  with assms show ?thesis
    by (auto simp: validate_object get_property_def split: option.splits json.splits)
qed (simp_all add: validate_not_object)

lemma upload_after_validation:
  assumes "isl (fst (validateSarifFormat d))" "snd (validateSarifFormat d) = []"
    "fs_readFile w path = Inr content" "JSON_parse w content = Inr d"
  shows "isl (fst (SarifUploader_uploadSarif w path))
    \<and> (\<forall>c. CodeScanningUpload c \<notin> set (snd (SarifUploader_uploadSarif w path)))"
proof -
  obtain e where "validateSarifFormat d = (Inl e, [])"
    using assms(1,2) by (cases "validateSarifFormat d") (auto simp: isl_def)
  with assms(3,4) show ?thesis
    by (simp add: SarifUploader_uploadSarif_def io_defs)
qed


text \<open>
  C8, as amended. Validation raises, with nothing logged and before the upload to the
  code-scanning endpoint is attempted, for every payload that has no \<open>$schema\<close>, no
  \<open>version\<close>, or whose \<open>runs\<close> is absent or not a list. It succeeds with exactly one
  warning for every payload whose \<open>$schema\<close> and \<open>version\<close> are present with truthy
  values (not \<open>null\<close>, \<open>false\<close>, \<open>0\<close> or the empty string) and whose \<open>runs\<close> is
  the empty list.
\<close>

theorem validateSarifFormat_checks:
  "((get_property d ''$schema'' = Inr None \<or> get_property d ''version'' = Inr None
      \<or> (\<forall>rs. get_property d ''runs'' \<noteq> Inr (Some (JArray rs)))) \<longrightarrow>
      isl (fst (validateSarifFormat d)) \<and> snd (validateSarifFormat d) = []
      \<and> (fs_readFile w path = Inr content \<and> JSON_parse w content = Inr d \<longrightarrow>
           isl (fst (SarifUploader_uploadSarif w path))
           \<and> (\<forall>c. CodeScanningUpload c \<notin> set (snd (SarifUploader_uploadSarif w path)))))
   \<and> (truthy (map_of props ''$schema'') \<and> truthy (map_of props ''version'')
      \<and> map_of props ''runs'' = Some (JArray []) \<longrightarrow>
      validateSarifFormat (JObject props) =
        (Inr (), [Warning ''SARIF file contains no runs - this may indicate no results were found'']))"
proof (intro conjI impI)
  assume a: "get_property d ''$schema'' = Inr None \<or> get_property d ''version'' = Inr None
      \<or> (\<forall>rs. get_property d ''runs'' \<noteq> Inr (Some (JArray rs)))"
  from validate_rejects [OF a]
  show r: "isl (fst (validateSarifFormat d))" and t: "snd (validateSarifFormat d) = []"
    by simp_all
  assume "fs_readFile w path = Inr content \<and> JSON_parse w content = Inr d"
  with upload_after_validation [OF r t, of w path content]
  show "isl (fst (SarifUploader_uploadSarif w path))"
    and "\<forall>c. CodeScanningUpload c \<notin> set (snd (SarifUploader_uploadSarif w path))"
    by simp_all
next
  assume "truthy (map_of props ''$schema'') \<and> truthy (map_of props ''version'')
      \<and> map_of props ''runs'' = Some (JArray [])"
  then show "validateSarifFormat (JObject props) =
        (Inr (), [Warning ''SARIF file contains no runs - this may indicate no results were found''])"
    by (simp add: validate_object)
qed

theorem validateSarifFormat_checks_witness:
  "isl (fst (validateSarifFormat (JObject [(''version'', JString ''2.1.0''), (''runs'', JArray [])])))
   \<and> isl (fst (SarifUploader_uploadSarif
        (example_world\<lparr>JSON_parse :=
           (\<lambda>text. Inr (JObject [(''version'', JString ''2.1.0''), (''runs'', JArray [])]))\<rparr>)
        ''results.sarif''))
   \<and> (\<forall>c. CodeScanningUpload c \<notin> set (snd (SarifUploader_uploadSarif
        (example_world\<lparr>JSON_parse :=
           (\<lambda>text. Inr (JObject [(''version'', JString ''2.1.0''), (''runs'', JArray [])]))\<rparr>)
        ''results.sarif'')))
   \<and> validateSarifFormat empty_sarif =
        (Inr (), [Warning ''SARIF file contains no runs - this may indicate no results were found''])"
  using validateSarifFormat_checks
    [of "JObject [(''version'', JString ''2.1.0''), (''runs'', JArray [])]"
        "example_world\<lparr>JSON_parse :=
           (\<lambda>text. Inr (JObject [(''version'', JString ''2.1.0''), (''runs'', JArray [])]))\<rparr>"
        "''results.sarif''" "''{}''"
        "[(''$schema'', JString ''https://json.schemastore.org/sarif-2.1.0.json''),
          (''version'', JString ''2.1.0''), (''runs'', JArray [])]"]
  by (simp add: get_property_def example_world_def empty_sarif_def)

text \<open>
  The claim as stated fails for a payload in which all three fields are present and
  \<open>runs\<close> is the empty list, but the schema identifier is the empty string: the test
  \<open>!sarifData.$schema\<close> is a test of truthiness.
\<close>

theorem validateSarifFormat_empty_schema_counterexample:
  "map_of [(''$schema'', JString []), (''version'', JString ''2.1.0''), (''runs'', JArray [])]
       ''$schema'' = Some (JString [])
   \<and> validateSarifFormat
       (JObject [(''$schema'', JString []), (''version'', JString ''2.1.0''), (''runs'', JArray [])])
     = (Inl (Error ''Invalid SARIF: Missing $schema property''), [])"
  by (simp add: validate_object)

subsection \<open>A failed upload of the findings\<close>


lemma fst_io_bind: "fst (io_bind m f) = bind_result (fst m) (\<lambda>x. fst (f x))"
  by (cases m; cases "fst m") (auto simp: io_bind_def bind_result_def split: prod.splits)

lemma fst_io_catch:
  "fst (io_catch m h) = (case fst m of Inl e \<Rightarrow> fst (h e) | Inr x \<Rightarrow> Inr x)"
  by (cases m; cases "fst m") (auto simp: io_catch_def split: prod.splits)

lemma snd_io_catch_Inl:
  "fst m = Inl e \<Longrightarrow> snd (io_catch m h) = snd m @ snd (h e)"
  by (cases m) (auto simp: io_catch_def split: prod.splits)

lemma snd_io_bind_Inr:
  "fst m = Inr x \<Longrightarrow> snd (io_bind m f) = snd m @ snd (f x)"
  by (cases m) (auto simp: io_bind_def split: prod.splits)

lemma fst_io_simps:
  "fst (io_return x) = Inr x" "fst (io_throw e) = Inl e" "fst (io_emit ev) = Inr ()"
  "fst (io_lift r) = r" "fst (io_call ev r) = r"
  by (simp_all add: io_defs)

lemma uploadSarifResults_returns: "fst (uploadSarifResults w f) = Inr ()"
  by (cases "fst (SarifUploader_uploadSarif w f)")
     (simp_all add: uploadSarifResults_def fst_io_catch fst_io_simps)

lemma uploadSarifResults_warns:
  assumes "fst (SarifUploader_uploadSarif w f) = Inl e"
  shows "snd (uploadSarifResults w f) =
     snd (SarifUploader_uploadSarif w f) @ [Warning (''SARIF upload failed: '' @ error_message e)]"
  using assms by (simp add: uploadSarifResults_def snd_io_catch_Inl io_emit_def)

lemma upload_stage_returns:
  "fst (case resultsFile r of
          Some file \<Rightarrow>
            if uploadSarif inputs \<and> outputFormat inputs = ''sarif'' \<and> file \<noteq> [] then
              uploadSarifResults w file
            else io_return ()
        | None \<Rightarrow> io_return ()) = Inr ()"
  by (simp add: uploadSarifResults_returns fst_io_simps split: option.splits)

lemma fst_execute:
  "fst (execute w inputs) =
     bind_result (fst (validateAuthentication w)) (\<lambda>_.
     bind_result (fst (setupRepository w inputs)) (\<lambda>repositoryId.
     bind_result (fst (executeScan w inputs repositoryId)) (\<lambda>scanId.
     bind_result (fst (processResults w inputs scanId)) (\<lambda>results'.
     bind_result (checkFailureConditions inputs results') (\<lambda>_.
     Inr (make_outputs results' repositoryId scanId))))))"
  by (simp add: execute_def fst_io_catch fst_io_bind fst_io_simps upload_stage_returns
      bind_result_def split: sum.splits)


lemma snd_io_catch_Inr:
  "fst m = Inr x \<Longrightarrow> snd (io_catch m h) = snd m"
  by (cases m) (auto simp: io_catch_def split: prod.splits)

lemma execute_trace:
  assumes "fst (validateAuthentication w) = Inr ()"
    and "fst (setupRepository w inputs) = Inr rid"
    and "fst (executeScan w inputs rid) = Inr sid"
    and "fst (processResults w inputs sid) = Inr res"
    and "checkFailureConditions inputs res = Inr ()"
    and "uploadSarif inputs" "outputFormat inputs = ''sarif''"
    and "resultsFile res = Some file" "file \<noteq> []"
  shows "snd (execute w inputs) =
     snd (validateAuthentication w) @ snd (setupRepository w inputs)
     @ snd (executeScan w inputs rid) @ snd (processResults w inputs sid)
     @ snd (uploadSarifResults w file)"
proof -
  let ?body = "io_bind (validateAuthentication w) (\<lambda>_.
        io_bind (setupRepository w inputs) (\<lambda>repositoryId.
        io_bind (executeScan w inputs repositoryId) (\<lambda>scanId.
        io_bind (processResults w inputs scanId) (\<lambda>results'.
        io_bind
          (case resultsFile results' of
             Some file \<Rightarrow>
               if uploadSarif inputs \<and> outputFormat inputs = ''sarif'' \<and> file \<noteq> [] then
                 uploadSarifResults w file
               else io_return ()
           | None \<Rightarrow> io_return ()) (\<lambda>_.
        io_bind (io_lift (checkFailureConditions inputs results')) (\<lambda>_.
        io_return (make_outputs results' repositoryId scanId)))))))"
  have up: "fst (uploadSarifResults w file) = Inr ()" by (rule uploadSarifResults_returns)
  have t: "snd ?body = snd (validateAuthentication w) @ snd (setupRepository w inputs)
     @ snd (executeScan w inputs rid) @ snd (processResults w inputs sid)
     @ snd (uploadSarifResults w file)"
    using assms up
    by (simp add: snd_io_bind_Inr [where x = "()"] snd_io_bind_Inr [where x = rid]
        snd_io_bind_Inr [where x = sid] snd_io_bind_Inr [where x = res]
        fst_io_simps io_lift_def io_return_def)
  have f: "fst ?body = Inr (make_outputs res rid sid)"
    using assms up by (simp add: fst_io_bind fst_io_simps bind_result_def)
  show ?thesis
    unfolding execute_def using snd_io_catch_Inr [OF f] t by simp
qed


lemma stages_ignore_upload:
  "validateAuthentication (w\<lparr>fs_pathExists := pe, fs_readFile := rf, JSON_parse := jp,
      octokit_uploadSarif := up\<rparr>) = validateAuthentication w"
  "setupRepository (w\<lparr>fs_pathExists := pe, fs_readFile := rf, JSON_parse := jp,
      octokit_uploadSarif := up\<rparr>) inputs = setupRepository w inputs"
  "executeScan (w\<lparr>fs_pathExists := pe, fs_readFile := rf, JSON_parse := jp,
      octokit_uploadSarif := up\<rparr>) inputs rid = executeScan w inputs rid"
  "processResults (w\<lparr>fs_pathExists := pe, fs_readFile := rf, JSON_parse := jp,
      octokit_uploadSarif := up\<rparr>) inputs sid = processResults w inputs sid"
  by (simp_all add: validateAuthentication_def setupRepository_def executeScan_def
      processResults_def Let_def cong: if_cong sum.case_cong option.case_cong)

text \<open>
  C3. The upload stage never raises: a failure of the upload is turned into the warning
  \<open>SARIF upload failed: ...\<close>. When authentication, repository setup, scan and export
  succeed and no threshold is crossed, the pipeline returns the outputs built from the
  exported results, and the warning is in its log when the upload was attempted and
  failed. What the pipeline returns or raises is the same whatever the file system, the
  JSON parser and the code-scanning endpoint do during the upload.
\<close>

theorem upload_failure_is_absorbed:
  "fst (uploadSarifResults w f) = Inr ()
   \<and> (fst (SarifUploader_uploadSarif w f) = Inl e \<longrightarrow>
        snd (uploadSarifResults w f) =
          snd (SarifUploader_uploadSarif w f)
          @ [Warning (''SARIF upload failed: '' @ error_message e)])
   \<and> (fst (validateAuthentication w) = Inr ()
        \<and> fst (setupRepository w inputs) = Inr rid
        \<and> fst (executeScan w inputs rid) = Inr sid
        \<and> fst (processResults w inputs sid) = Inr res
        \<and> checkFailureConditions inputs res = Inr () \<longrightarrow>
        fst (execute w inputs) = Inr (make_outputs res rid sid)
        \<and> (uploadSarif inputs \<and> outputFormat inputs = ''sarif''
             \<and> resultsFile res = Some out \<and> out \<noteq> []
             \<and> fst (SarifUploader_uploadSarif w out) = Inl e' \<longrightarrow>
             Warning (''SARIF upload failed: '' @ error_message e') \<in> set (snd (execute w inputs))))
   \<and> fst (execute (w\<lparr>fs_pathExists := pe, fs_readFile := rf, JSON_parse := jp,
             octokit_uploadSarif := up\<rparr>) inputs)
       = fst (execute w inputs)"
proof -
  have a: "fst (uploadSarifResults w f) = Inr ()" by (rule uploadSarifResults_returns)
  have b: "snd (uploadSarifResults w f) =
          snd (SarifUploader_uploadSarif w f)
          @ [Warning (''SARIF upload failed: '' @ error_message e)]"
    if "fst (SarifUploader_uploadSarif w f) = Inl e"
    using that by (rule uploadSarifResults_warns)
  have c: "fst (execute w inputs) = Inr (make_outputs res rid sid)"
    if "fst (validateAuthentication w) = Inr ()" "fst (setupRepository w inputs) = Inr rid"
      "fst (executeScan w inputs rid) = Inr sid" "fst (processResults w inputs sid) = Inr res"
      "checkFailureConditions inputs res = Inr ()"
    using that by (simp add: fst_execute bind_result_def)
  have d: "Warning (''SARIF upload failed: '' @ error_message e') \<in> set (snd (execute w inputs))"
    if s: "fst (validateAuthentication w) = Inr ()" "fst (setupRepository w inputs) = Inr rid"
      "fst (executeScan w inputs rid) = Inr sid" "fst (processResults w inputs sid) = Inr res"
      "checkFailureConditions inputs res = Inr ()"
    and u: "uploadSarif inputs" "outputFormat inputs = ''sarif''" "resultsFile res = Some out"
      "out \<noteq> []" "fst (SarifUploader_uploadSarif w out) = Inl e'"
  proof -
    have "snd (execute w inputs) =
       snd (validateAuthentication w) @ snd (setupRepository w inputs)
       @ snd (executeScan w inputs rid) @ snd (processResults w inputs sid)
       @ snd (uploadSarifResults w out)"
      using s u(1-4) by (rule execute_trace)
    moreover have "snd (uploadSarifResults w out) =
       snd (SarifUploader_uploadSarif w out)
       @ [Warning (''SARIF upload failed: '' @ error_message e')]"
      using u(5) by (rule uploadSarifResults_warns)
    ultimately show ?thesis by simp
  qed
  have e: "fst (execute (w\<lparr>fs_pathExists := pe, fs_readFile := rf, JSON_parse := jp,
             octokit_uploadSarif := up\<rparr>) inputs)
       = fst (execute w inputs)"
    by (simp only: fst_execute stages_ignore_upload)
  from a b c d e show ?thesis by blast
qed

lemma denied_stages:
  "fst (validateAuthentication upload_denied_world) = Inr ()"
  "fst (setupRepository upload_denied_world default_inputs) = Inr ''repo-1''"
  "fst (executeScan upload_denied_world default_inputs ''repo-1'') = Inr ''scan-1''"
  "checkFailureConditions default_inputs no_findings = Inr ()"
  by (simp_all add: validateAuthentication_def setupRepository_def executeScan_def
      checkFailureConditions_def unit_result_def io_defs Let_def js_gt_def
      upload_denied_world_def example_world_def default_inputs_def no_findings_def)

lemma denied_export:
  "fst (processResults upload_denied_world default_inputs ''scan-1'') = Inr no_findings"
  by (simp add: processResults_def generateScanUrl_def unit_result_def io_defs Let_def
      upload_denied_world_def example_world_def default_inputs_def no_findings_def)

lemma denied_upload:
  "fst (SarifUploader_uploadSarif upload_denied_world ''/work/codethreat-results.sarif'') =
     Inl (Error ''SARIF upload failed: Resource not accessible by integration'')"
  by (simp add: SarifUploader_uploadSarif_def validate_object io_defs
      upload_denied_world_def example_world_def empty_sarif_def)

lemma denied_restored:
  "upload_denied_world\<lparr>fs_pathExists := fs_pathExists example_world,
     fs_readFile := fs_readFile example_world, JSON_parse := JSON_parse example_world,
     octokit_uploadSarif := octokit_uploadSarif example_world\<rparr> = example_world"
  by (simp add: upload_denied_world_def example_world_def)

theorem upload_failure_is_absorbed_witness:
  "fst (execute upload_denied_world default_inputs)
     = Inr (make_outputs no_findings ''repo-1'' ''scan-1'')
   \<and> Warning ''SARIF upload failed: SARIF upload failed: Resource not accessible by integration''
       \<in> set (snd (execute upload_denied_world default_inputs))
   \<and> fst (execute example_world default_inputs)
     = fst (execute upload_denied_world default_inputs)"
  using upload_failure_is_absorbed
    [where w = upload_denied_world and inputs = default_inputs and rid = "''repo-1''"
       and sid = "''scan-1''" and res = no_findings
       and out = "''/work/codethreat-results.sarif''"
       and e' = "Error ''SARIF upload failed: Resource not accessible by integration''"
       and pe = "fs_pathExists example_world" and rf = "fs_readFile example_world"
       and jp = "JSON_parse example_world" and up = "octokit_uploadSarif example_world"]
  by (simp add: denied_stages denied_export denied_upload denied_restored)
     (simp add: default_inputs_def no_findings_def)

subsection \<open>A run without a token\<close>

lemma constructor_without_token:
  assumes "getInput w ''github-token'' = []"
    and "env_GITHUB_TOKEN w = None \<or> env_GITHUB_TOKEN w = Some []"
  shows "CodeThreatAction_constructor w inputs = Inl (Error
       (''GitHub token is required for SARIF upload. Please add ''
         @ [CHR 0x22] @ ''github-token: ${{ secrets.GITHUB_TOKEN }}'' @ [CHR 0x22]
         @ '' to action inputs or ensure proper permissions are set.''))"
  using assms
  by (auto simp: CodeThreatAction_constructor_def SarifUploader_constructor_def bind_result_def)

lemma run_without_token:
  assumes "getInput w ''github-token'' = []"
    and "env_GITHUB_TOKEN w = None \<or> env_GITHUB_TOKEN w = Some []"
  shows "(\<forall>outs. fst (run w) \<noteq> Completed outs) \<and> (\<forall>name. ClientCall name \<notin> set (snd (run w)))"
proof (cases "Logger_constructor w")
  case (Inl e)
  then show ?thesis by (simp add: run_def)
next
  case logger: (Inr v)
  show ?thesis
  proof (cases "parseInputs w")
    case (Inl e)
    with logger show ?thesis by (simp add: run_def io_defs)
  next
    case (Inr inputs)
    with logger constructor_without_token [OF assms, of inputs] show ?thesis
      by (simp add: run_def io_defs)
  qed
qed

lemma run_constructor_failure:
  assumes "parseInputs w = Inr inputs"
    and "CodeThreatAction_constructor w inputs = Inl (Error m)"
  shows "run w = (Failed m, [ErrorLog (cross_sign @ '' CodeThreat Security Scan failed'') m])"
proof -
  from assms(1) obtain v where "Logger_constructor w = Inr v"
    by (cases "Logger_constructor w") (simp_all add: parseInputs_def bind_result_def)
  with assms show ?thesis by (simp add: run_def io_defs)
qed


lemma parseInputs_no_token:
  "parseInputs no_token_world = Inr (default_inputs\<lparr>uploadSarif := False\<rparr>)"
  by (simp add: parseInputs_def Logger_constructor_def getBooleanInput_def
      getInput_required_def bind_result_def or_else_def validFormats_def js_gt_def Let_def
      no_token_world_def with_input_def example_world_def example_inputs_def parseInt_defaults
      default_inputs_def)

text \<open>
  C10. The constructor of the orchestrator constructs the uploader whatever the inputs
  say. In every run where the \<open>github-token\<close> input is empty and \<open>GITHUB_TOKEN\<close> is unset
  or empty, the constructor raises the token error for every configuration (also one
  with the upload disabled or with another output format), the run does not complete, and
  no call to the scan client is made, the authentication call included; when the inputs
  are accepted, the step is marked failed with the token error.
\<close>

theorem missing_token_fails_before_authentication:
  assumes "getInput w ''github-token'' = []"
    and "env_GITHUB_TOKEN w = None \<or> env_GITHUB_TOKEN w = Some []"
  shows "CodeThreatAction_constructor w inputs = Inl (Error
       (''GitHub token is required for SARIF upload. Please add ''
         @ [CHR 0x22] @ ''github-token: ${{ secrets.GITHUB_TOKEN }}'' @ [CHR 0x22]
         @ '' to action inputs or ensure proper permissions are set.''))
     \<and> (\<forall>outs. fst (run w) \<noteq> Completed outs)
     \<and> (\<forall>name. ClientCall name \<notin> set (snd (run w)))
     \<and> (parseInputs w = Inr inputs \<longrightarrow>
          run w = (Failed
       (''GitHub token is required for SARIF upload. Please add ''
         @ [CHR 0x22] @ ''github-token: ${{ secrets.GITHUB_TOKEN }}'' @ [CHR 0x22]
         @ '' to action inputs or ensure proper permissions are set.''),
            [ErrorLog (cross_sign @ '' CodeThreat Security Scan failed'')
       (''GitHub token is required for SARIF upload. Please add ''
         @ [CHR 0x22] @ ''github-token: ${{ secrets.GITHUB_TOKEN }}'' @ [CHR 0x22]
         @ '' to action inputs or ensure proper permissions are set.'')]))"
  using constructor_without_token [OF assms, of inputs] run_without_token [OF assms]
    run_constructor_failure [of w inputs]
  by simp

theorem missing_token_fails_before_authentication_witness:
  "\<not> uploadSarif (default_inputs\<lparr>uploadSarif := False\<rparr>)
   \<and> parseInputs no_token_world = Inr (default_inputs\<lparr>uploadSarif := False\<rparr>)
   \<and> run no_token_world = (Failed
       (''GitHub token is required for SARIF upload. Please add ''
         @ [CHR 0x22] @ ''github-token: ${{ secrets.GITHUB_TOKEN }}'' @ [CHR 0x22]
         @ '' to action inputs or ensure proper permissions are set.''),
            [ErrorLog (cross_sign @ '' CodeThreat Security Scan failed'')
       (''GitHub token is required for SARIF upload. Please add ''
         @ [CHR 0x22] @ ''github-token: ${{ secrets.GITHUB_TOKEN }}'' @ [CHR 0x22]
         @ '' to action inputs or ensure proper permissions are set.'')])"
  using missing_token_fails_before_authentication
    [of no_token_world "default_inputs\<lparr>uploadSarif := False\<rparr>"]
  by (simp add: parseInputs_no_token)
     (simp add: no_token_world_def with_input_def example_world_def example_inputs_def)

end
